theory Spec2Isabelle
  imports Complex_Main "HOL-Library.Word" "HOL-Library.Mapping" "HOL-Library.AList_Mapping"
    "HOL-Library.Multiset"
begin

unbundle bit_operations_syntax

section \<open>Arbitrary-precision money values\<close>

text \<open>
  The Go code passes money as \<^verbatim>\<open>*big.Int\<close>: a pointer that may be nil. A pointer is
  modelled as \<^typ>\<open>int option\<close>, nil being \<^term>\<open>None\<close>. \<^verbatim>\<open>big.Int.Div\<close> is Euclidean
  division; for the positive divisors used here it rounds towards minus infinity, as
  \<^term>\<open>(div)\<close> on \<^typ>\<open>int\<close> does.
\<close>

type_synonym bigint = "int option"

definition orZero :: "bigint \<Rightarrow> int" where
  "orZero x = (case x of None \<Rightarrow> 0 | Some v \<Rightarrow> v)"

section \<open>Shapley split and classification (incentive/justitia/justitia.go)\<close>

definition Split2 :: "bigint \<Rightarrow> bigint \<Rightarrow> bigint \<Rightarrow> bigint \<Rightarrow> int \<times> int" where
  "Split2 fAB R EA EB =
     (let fAB = orZero fAB; R = orZero R; EA = orZero EA; EB = orZero EB;
          total = fAB + R;
          diff = EA - EB;
          uA_calc = (total + diff) div 2;
          uB_calc = (total - diff) div 2
      in if uA_calc < 0 then (0, total)
         else if uB_calc < 0 then (total, 0)
         else (uA_calc, uB_calc))"

datatype Case = Case1 | Case2 | Case3

definition Classify :: "bigint \<Rightarrow> bigint \<Rightarrow> bigint \<Rightarrow> Case" where
  "Classify uA EA EB =
     (let uA = orZero uA; EA = orZero EA; EB = orZero EB
      in if uA \<ge> EA then Case1
         else if EB \<ge> EA then (if uA \<le> 0 then Case2 else Case3)
         else (let threshold = EA - EB
               in if uA \<le> threshold then Case2 else Case3))"

section \<open>Proposer fee of a CSV row (ingest/ethcsv)\<close>

record TxRow =
  BlockNumber :: "64 word"
  Timestamp :: "64 word"
  TxHash :: string
  From :: string
  To :: string
  ToCreate :: string
  Value :: bigint
  GasLimit :: "64 word"
  GasPrice :: bigint
  GasUsed :: "64 word"
  EIP2718Type :: "8 word"
  BaseFeePerGas :: bigint
  MaxFeePerGas :: bigint
  MaxPriorityFeePerGas :: bigint
  IsError :: bool
  BlobHashes :: "string list"
  BlobBaseFeePerGas :: bigint
  BlobGasUsed :: "64 word"

definition ComputeProposerFee :: "TxRow \<Rightarrow> int" where
  "ComputeProposerFee r =
     (if GasUsed r = 0 then 0
      else
        let gu = uint (GasUsed r) in
        if EIP2718Type r = 0 \<or> EIP2718Type r = 1 then
          (case GasPrice r of None \<Rightarrow> 0 | Some gp \<Rightarrow> gu * gp)
        else if EIP2718Type r = 2 \<or> EIP2718Type r = 3 then
          (case (BaseFeePerGas r, MaxFeePerGas r, MaxPriorityFeePerGas r) of
             (Some base, Some maxFee, Some prio) \<Rightarrow>
               (let sum = base + prio;
                    effective = (if sum < maxFee then sum else maxFee);
                    tip = effective - base;
                    tip = (if tip < 0 then 0 else tip)
                in gu * tip)
           | _ \<Rightarrow> 0)
        else 0)"

section \<open>Shard of an address (ingest/ethcsv)\<close>

text \<open>
  \<^verbatim>\<open>MapShard\<close> hashes with \<^verbatim>\<open>crypto/sha256\<close> of the Go library. SHA-256 is defined here as
  FIPS 180-4 does, on 32-bit words written as natural numbers below \<open>2 ^ 32\<close> with the
  wrap-around of the addition written out; the digest is the list of its eight words.
\<close>

definition add32 :: "nat \<Rightarrow> nat \<Rightarrow> nat" where
  "add32 x y = (x + y) mod 4294967296"

definition rotr :: "nat \<Rightarrow> nat \<Rightarrow> nat" where
  "rotr n x = x div 2 ^ n + (x mod 2 ^ n) * 2 ^ (32 - n)"

definition not32 :: "nat \<Rightarrow> nat" where
  "not32 x = 4294967295 - x"

definition sha256Ch :: "nat \<Rightarrow> nat \<Rightarrow> nat \<Rightarrow> nat" where
  "sha256Ch e f g = (e AND f) XOR (not32 e AND g)"

definition sha256Maj :: "nat \<Rightarrow> nat \<Rightarrow> nat \<Rightarrow> nat" where
  "sha256Maj a b c = (a AND b) XOR (a AND c) XOR (b AND c)"

definition bigSigma0 :: "nat \<Rightarrow> nat" where
  "bigSigma0 x = rotr 2 x XOR rotr 13 x XOR rotr 22 x"

definition bigSigma1 :: "nat \<Rightarrow> nat" where
  "bigSigma1 x = rotr 6 x XOR rotr 11 x XOR rotr 25 x"

definition smallSigma0 :: "nat \<Rightarrow> nat" where
  "smallSigma0 x = rotr 7 x XOR rotr 18 x XOR x div 2 ^ 3"

definition smallSigma1 :: "nat \<Rightarrow> nat" where
  "smallSigma1 x = rotr 17 x XOR rotr 19 x XOR x div 2 ^ 10"

definition sha256K :: "nat list" where
  "sha256K =
     [1116352408, 1899447441, 3049323471, 3921009573, 961987163, 1508970993, 2453635748, 2870763221,
      3624381080, 310598401, 607225278, 1426881987, 1925078388, 2162078206, 2614888103, 3248222580,
      3835390401, 4022224774, 264347078, 604807628, 770255983, 1249150122, 1555081692, 1996064986,
      2554220882, 2821834349, 2952996808, 3210313671, 3336571891, 3584528711, 113926993, 338241895,
      666307205, 773529912, 1294757372, 1396182291, 1695183700, 1986661051, 2177026350, 2456956037,
      2730485921, 2820302411, 3259730800, 3345764771, 3516065817, 3600352804, 4094571909, 275423344,
      430227734, 506948616, 659060556, 883997877, 958139571, 1322822218, 1537002063, 1747873779,
      1955562222, 2024104815, 2227730452, 2361852424, 2428436474, 2756734187, 3204031479, 3329325298]"

definition sha256Init :: "nat list" where
  "sha256Init =
     [1779033703, 3144134277, 1013904242, 2773480762, 1359893119, 2600822924, 528734635, 1541459225]"

text \<open>The length of a list, in a form that computes with numerals.\<close>

fun len :: "'a list \<Rightarrow> nat" where
  "len [] = 0"
| "len (x # xs) = 1 + len xs"

definition bigEndian64 :: "nat \<Rightarrow> nat list" where
  "bigEndian64 n = map (\<lambda>i. (n div 256 ^ i) mod 256) [7, 6, 5, 4, 3, 2, 1, 0]"

definition sha256Pad :: "nat list \<Rightarrow> nat list" where
  "sha256Pad m =
     m @ [128] @ replicate ((119 - len m mod 64) mod 64) 0 @ bigEndian64 (8 * len m)"

fun bigEndianWords :: "nat list \<Rightarrow> nat list" where
  "bigEndianWords (a # b # c # d # rest) =
     (a * 16777216 + b * 65536 + c * 256 + d) # bigEndianWords rest"
| "bigEndianWords rest = []"

definition sha256Word :: "nat list \<Rightarrow> nat" where
  "sha256Word wr =
     add32 (add32 (add32 (smallSigma1 (wr ! 1)) (wr ! 6)) (smallSigma0 (wr ! 14))) (wr ! 15)"

fun sha256Expand :: "nat list \<Rightarrow> nat list \<Rightarrow> nat list" where
  "sha256Expand [] wr = wr"
| "sha256Expand (t # ts) wr = sha256Expand ts (sha256Word wr # wr)"

text \<open>
  The message schedule, newest word first while it is extended: the words 16 to 63 are
  added one for each index of the first argument.
\<close>

definition sha256Schedule :: "nat list \<Rightarrow> nat list" where
  "sha256Schedule w = rev (sha256Expand [16..<64] (rev w))"

definition sha256T1 :: "nat list \<Rightarrow> nat \<Rightarrow> nat \<Rightarrow> nat" where
  "sha256T1 st k w =
     add32 (add32 (add32 (add32 (st ! 7) (bigSigma1 (st ! 4))) (sha256Ch (st ! 4) (st ! 5) (st ! 6))) k) w"

definition sha256T2 :: "nat list \<Rightarrow> nat" where
  "sha256T2 st = add32 (bigSigma0 (st ! 0)) (sha256Maj (st ! 0) (st ! 1) (st ! 2))"

definition sha256Step :: "nat list \<Rightarrow> nat \<Rightarrow> nat \<Rightarrow> nat list" where
  "sha256Step st t1 t2 =
     [add32 t1 t2, st ! 0, st ! 1, st ! 2, add32 (st ! 3) t1, st ! 4, st ! 5, st ! 6]"

definition sha256Round :: "nat list \<Rightarrow> nat \<times> nat \<Rightarrow> nat list" where
  "sha256Round st kw = sha256Step st (sha256T1 st (fst kw) (snd kw)) (sha256T2 st)"

definition sha256Block :: "nat list \<Rightarrow> nat list \<Rightarrow> nat list" where
  "sha256Block h block =
     map2 add32 h (foldl sha256Round h (zip sha256K (sha256Schedule (bigEndianWords block))))"

fun sha256Blocks :: "nat list \<Rightarrow> nat list \<Rightarrow> nat list" where
  "sha256Blocks h [] = h"
| "sha256Blocks h (b # bs) = sha256Blocks (sha256Block h (take 64 (b # bs))) (drop 64 (b # bs))"

definition sha256 :: "nat list \<Rightarrow> nat list" where
  "sha256 m = sha256Blocks sha256Init (sha256Pad m)"

definition stringBytes :: "string \<Rightarrow> nat list" where
  "stringBytes s = map of_char s"

text \<open>
  A Go string is a sequence of bytes, as a \<^typ>\<open>string\<close> is. \<^verbatim>\<open>strings.ToLower\<close> maps the
  letters A to Z of a string of ASCII bytes to lower case; on any other string it applies
  the Unicode case mapping of the Go library, the parameter \<open>unicodeLower\<close>.
\<close>

definition asciiLower :: "char \<Rightarrow> char" where
  "asciiLower c =
     (case map_of (zip ''ABCDEFGHIJKLMNOPQRSTUVWXYZ'' ''abcdefghijklmnopqrstuvwxyz'') c of
        Some l \<Rightarrow> l
      | None \<Rightarrow> c)"

definition isASCII :: "string \<Rightarrow> bool" where
  "isASCII s = list_all (\<lambda>c. (of_char c :: nat) < 128) s"

definition ToLower :: "(string \<Rightarrow> string) \<Rightarrow> string \<Rightarrow> string" where
  "ToLower unicodeLower s = (if isASCII s then map asciiLower s else unicodeLower s)"

fun HasPrefix :: "string \<Rightarrow> string \<Rightarrow> bool" where
  "HasPrefix s [] = True"
| "HasPrefix [] (p # ps) = False"
| "HasPrefix (c # cs) (p # ps) = (c = p \<and> HasPrefix cs ps)"

definition TrimPrefix :: "string \<Rightarrow> string \<Rightarrow> string" where
  "TrimPrefix s pre = (if HasPrefix s pre then drop (length pre) s else s)"

text \<open>
  The first eight bytes of the digest, read big-endian, are its first two words. The shard
  count is a Go \<^verbatim>\<open>int\<close>; a positive one converts to \<^verbatim>\<open>uint64\<close> unchanged.
\<close>

definition MapShard :: "(string \<Rightarrow> string) \<Rightarrow> string \<Rightarrow> int \<Rightarrow> int" where
  "MapShard unicodeLower addr shards =
     (if shards \<le> 0 then 0
      else
        let addr = TrimPrefix (ToLower unicodeLower addr) ''0x'';
            hash = sha256 (stringBytes addr);
            hashNum = hash ! 0 * 4294967296 + hash ! 1
        in int (hashNum mod nat shards))"

section \<open>Pending-settlement ledger (crossshard/pending/ledger.go)\<close>

text \<open>
  The fields \<^verbatim>\<open>R\<close>, \<^verbatim>\<open>EA\<close> and \<^verbatim>\<open>EB\<close> of the Go struct are written \<open>R_AB\<close>, \<open>E_A\<close> and
  \<open>E_B\<close>. The ledger stores pointers to entries; no operation modelled here writes
  through them, so the entries are stored by value. The two Go maps are finite maps; the
  read-write mutex is held by every operation for its whole body, so each operation is
  one atomic step on the ledger state.
\<close>

record Pending =
  PairID :: string
  ShardA :: int
  ShardB :: int
  FAB :: "64 word"
  R_AB :: "64 word"
  E_A :: "64 word"
  E_B :: "64 word"
  UtilityA :: "64 word"
  UtilityB :: "64 word"
  SourceBlockID :: string
  CreatedAt :: int

record Ledger =
  pending :: "(string, Pending) mapping"
  settled :: "(string, bool) mapping"

datatype ledger_error =
  AlreadySettled string
  | AlreadyPending string
  | NotFound string

definition NewLedger :: Ledger where
  "NewLedger = \<lparr>pending = Mapping.empty, settled = Mapping.empty\<rparr>"

text \<open>Reading a Go \<^verbatim>\<open>map[string]bool\<close> at an absent key gives false.\<close>

definition IsSettled :: "Ledger \<Rightarrow> string \<Rightarrow> bool" where
  "IsSettled l pairID = (case Mapping.lookup (settled l) pairID of None \<Rightarrow> False | Some b \<Rightarrow> b)"

definition IsPending :: "Ledger \<Rightarrow> string \<Rightarrow> bool" where
  "IsPending l pairID = (case Mapping.lookup (pending l) pairID of None \<Rightarrow> False | Some p \<Rightarrow> True)"

definition Add :: "Ledger \<Rightarrow> Pending \<Rightarrow> ledger_error option \<times> Ledger" where
  "Add l p =
     (if IsSettled l (PairID p) then (Some (AlreadySettled (PairID p)), l)
      else case Mapping.lookup (pending l) (PairID p) of
             Some q \<Rightarrow> (Some (AlreadyPending (PairID p)), l)
           | None \<Rightarrow> (None, l\<lparr>pending := Mapping.update (PairID p) p (pending l)\<rparr>))"

text \<open>Decimal rendering of an integer, as the verb \<^verbatim>\<open>%d\<close> of \<^verbatim>\<open>fmt.Sprintf\<close> prints it.\<close>

definition digitChar :: "nat \<Rightarrow> char" where
  "digitChar d = ''0123456789'' ! d"

fun showNat :: "nat \<Rightarrow> string" where
  "showNat n = (if n < 10 then [digitChar n]
                else showNat (n div 10) @ [digitChar (n mod 10)])"

declare showNat.simps [simp del]

definition showInt :: "int \<Rightarrow> string" where
  "showInt i = (if i < 0 then CHR ''-'' # showNat (nat (- i)) else showNat (nat i))"

definition proposerID :: "int \<Rightarrow> string \<Rightarrow> string" where
  "proposerID shard blockID = ''proposer_shard_'' @ showInt shard @ ''_block_'' @ blockID"

text \<open>
  The credit callback acts on a state of the caller, of type \<open>'w\<close>; a call of the callback
  is one application of \<open>creditFunc\<close> to that state.
\<close>

definition Settle ::
  "Ledger \<Rightarrow> string \<Rightarrow> string \<Rightarrow> (int \<Rightarrow> string \<Rightarrow> 64 word \<Rightarrow> 'w \<Rightarrow> 'w) \<Rightarrow> 'w
     \<Rightarrow> ledger_error option \<times> Ledger \<times> 'w" where
  "Settle l pairID destBlockID creditFunc w =
     (if IsSettled l pairID then (Some (AlreadySettled pairID), l, w)
      else case Mapping.lookup (pending l) pairID of
             None \<Rightarrow> (Some (NotFound pairID), l, w)
           | Some p \<Rightarrow>
               (let sourceProposerID = proposerID (ShardA p) (SourceBlockID p);
                    destProposerID = proposerID (ShardB p) destBlockID;
                    w = creditFunc (ShardA p) sourceProposerID (UtilityA p) w;
                    w = creditFunc (ShardB p) destProposerID (UtilityB p) w
                in (None,
                    l\<lparr>settled := Mapping.update pairID True (settled l),
                      pending := Mapping.delete pairID (pending l)\<rparr>,
                    w)))"

text \<open>A callback that records its calls, in order.\<close>

definition recordCredit ::
  "int \<Rightarrow> string \<Rightarrow> 64 word \<Rightarrow> (int \<times> string \<times> 64 word) list \<Rightarrow> (int \<times> string \<times> 64 word) list" where
  "recordCredit shardID proposer amount calls = calls @ [(shardID, proposer, amount)]"

text \<open>
  The loop of \<^verbatim>\<open>CleanupOld\<close> deletes the entry it is visiting, which Go allows during a
  \<^verbatim>\<open>range\<close>; every entry is visited once, in an order that does not matter.
\<close>

definition CleanupOld :: "Ledger \<Rightarrow> int \<Rightarrow> nat \<times> Ledger" where
  "CleanupOld l olderThan =
     (Mapping.size (Mapping.filter (\<lambda>pairID p. CreatedAt p < olderThan) (pending l)),
      l\<lparr>pending := Mapping.filter (\<lambda>pairID p. \<not> CreatedAt p < olderThan) (pending l)\<rparr>)"

definition entry0 :: Pending where
  "entry0 = \<lparr>PairID = ''tx1'', ShardA = 0, ShardB = 1, FAB = 100, R_AB = 50, E_A = 10, E_B = 10,
             UtilityA = 75, UtilityB = 75, SourceBlockID = ''a7'', CreatedAt = 5\<rparr>"

section \<open>Fee-expectation tracker (fees/expectation/avg.go)\<close>

text \<open>
  The windows hold copies made by the tracker itself, never nil, so a window is a list of
  integers. The fees passed in are pointers and may be nil. Slicing a window with a
  negative \<^verbatim>\<open>WindowSize\<close> panics; \<^verbatim>\<open>NewTracker\<close> never builds such a tracker, but the
  field is public, so the panic is the result \<^term>\<open>None\<close>.
\<close>

record Tracker =
  WindowSize :: int
  itxWindows :: "(int, int list) mapping"
  blockCount :: "(int, int) mapping"
  avg :: "(int, int) mapping"

definition NewTracker :: "int \<Rightarrow> Tracker" where
  "NewTracker windowSize =
     \<lparr>WindowSize = (if windowSize \<le> 0 then 16 else windowSize),
      itxWindows = Mapping.empty, blockCount = Mapping.empty, avg = Mapping.empty\<rparr>"

definition feeCap :: int where
  "feeCap = 100000000000000"

text \<open>The loop over the fees of the block: the running sum and count.\<close>

fun sumCapped :: "bigint list \<Rightarrow> int \<times> int \<Rightarrow> int \<times> int" where
  "sumCapped [] (acc, cnt) = (acc, cnt)"
| "sumCapped (fee # fees) (acc, cnt) =
     (case fee of
        None \<Rightarrow> sumCapped fees (acc, cnt)
      | Some f \<Rightarrow>
          if f > 0
          then (let cappedFee = (if f > feeCap then feeCap else f)
                in sumCapped fees (acc + cappedFee, cnt + 1))
          else sumCapped fees (acc, cnt))"

definition blockAvgOf :: "bigint list \<Rightarrow> int" where
  "blockAvgOf itxFeesInBlock =
     (if length itxFeesInBlock > 0
      then (case sumCapped itxFeesInBlock (0, 0) of
              (acc, cnt) \<Rightarrow> if cnt > 0 then acc div cnt else 0)
      else 0)"

definition recomputeAvg :: "Tracker \<Rightarrow> int \<Rightarrow> Tracker" where
  "recomputeAvg t shardID =
     (let window = (case Mapping.lookup (itxWindows t) shardID of None \<Rightarrow> [] | Some w \<Rightarrow> w)
      in if length window = 0 then t\<lparr>avg := Mapping.update shardID 0 (avg t)\<rparr>
         else t\<lparr>avg := Mapping.update shardID (sum_list window div int (length window)) (avg t)\<rparr>)"

definition OnBlockFinalized :: "Tracker \<Rightarrow> int \<Rightarrow> bigint list \<Rightarrow> Tracker option" where
  "OnBlockFinalized t shardID itxFeesInBlock =
     (let blockAvg = blockAvgOf itxFeesInBlock;
          t = (case Mapping.lookup (itxWindows t) shardID of
                 None \<Rightarrow> t\<lparr>itxWindows := Mapping.update shardID [] (itxWindows t),
                            blockCount := Mapping.update shardID 0 (blockCount t),
                            avg := Mapping.update shardID 0 (avg t)\<rparr>
               | Some w \<Rightarrow> t);
          window = (case Mapping.lookup (itxWindows t) shardID of None \<Rightarrow> [] | Some w \<Rightarrow> w)
                     @ [blockAvg];
          t = t\<lparr>itxWindows := Mapping.update shardID window (itxWindows t),
                blockCount := Mapping.update shardID
                                (Mapping.lookup_default 0 (blockCount t) shardID + 1) (blockCount t)\<rparr>
      in if int (length window) > WindowSize t
         then (if WindowSize t < 0 then None
               else Some (recomputeAvg
                      (t\<lparr>itxWindows :=
                           Mapping.update shardID
                             (drop (nat (int (length window) - WindowSize t)) window) (itxWindows t)\<rparr>)
                      shardID))
         else Some (recomputeAvg t shardID))"

definition GetAvgITXFee :: "Tracker \<Rightarrow> int \<Rightarrow> int" where
  "GetAvgITXFee t shardID = (case Mapping.lookup (avg t) shardID of Some a \<Rightarrow> a | None \<Rightarrow> 0)"

text \<open>
  \<^verbatim>\<open>UpdateRemoteShardFee\<close> allocates the window of a shard that has no mean yet with
  capacity \<^verbatim>\<open>WindowSize\<close>: \<^verbatim>\<open>make\<close> panics when that is negative.
\<close>

definition UpdateRemoteShardFee :: "Tracker \<Rightarrow> int \<Rightarrow> bigint \<Rightarrow> Tracker option" where
  "UpdateRemoteShardFee t shardID avgFee =
     (let avgFee = orZero avgFee
      in case Mapping.lookup (avg t) shardID of
           None \<Rightarrow>
             if WindowSize t < 0 then None
             else Some (t\<lparr>itxWindows := Mapping.update shardID [] (itxWindows t),
                          blockCount := Mapping.update shardID 0 (blockCount t),
                          avg := Mapping.update shardID avgFee (avg t)\<rparr>)
         | Some a \<Rightarrow> Some (t\<lparr>avg := Mapping.update shardID avgFee (avg t)\<rparr>))"

text \<open>Finalizing a sequence of blocks of one shard, one after the other.\<close>

fun finalizeAll :: "Tracker \<Rightarrow> int \<Rightarrow> bigint list list \<Rightarrow> Tracker option" where
  "finalizeAll t shardID [] = Some t"
| "finalizeAll t shardID (fees # rest) =
     (case OnBlockFinalized t shardID fees of
        None \<Rightarrow> None
      | Some t' \<Rightarrow> finalizeAll t' shardID rest)"

section \<open>Subsidy engine (incentive/justitia/justitia.go)\<close>

text \<open>
  The PID and the Lagrangian controller compute in \<^verbatim>\<open>float64\<close>. Its values are a type
  parameter \<open>'f\<close> and its operations are a record of functions handed to every definition
  that computes with them, so that nothing proved for every such record depends on how
  IEEE-754 rounds:
  \<open>fint\<close> is the conversion of an integer (and of the integer-valued literals of the
  code), \<open>fbig\<close> the conversion of a big integer through \<^verbatim>\<open>big.Float\<close>, \<open>fseconds now
  last\<close> is \<^verbatim>\<open>now.Sub(last).Seconds()\<close>, \<open>flt\<close> and \<open>fle\<close> are \<^verbatim>\<open><\<close> and \<^verbatim>\<open><=\<close>, and \<open>fscale e m\<close>
  is the product of the integer \<open>e\<close> and the multiplier \<open>m\<close> computed in \<^verbatim>\<open>big.Float\<close> and
  truncated to an integer; it is \<^term>\<open>None\<close> where the Go code panics (\<^verbatim>\<open>big.NewFloat\<close> of a
  NaN, \<^verbatim>\<open>Sign\<close> of the nil result for an infinity). Every operation of an expression
  is taken to round on its own (Go may fuse a multiplication with an addition on some
  architectures). Instants of time are integers.
\<close>

record 'f Float64 =
  fadd :: "'f \<Rightarrow> 'f \<Rightarrow> 'f"
  fsub :: "'f \<Rightarrow> 'f \<Rightarrow> 'f"
  fmul :: "'f \<Rightarrow> 'f \<Rightarrow> 'f"
  fdiv :: "'f \<Rightarrow> 'f \<Rightarrow> 'f"
  fpow :: "'f \<Rightarrow> 'f \<Rightarrow> 'f"
  flt :: "'f \<Rightarrow> 'f \<Rightarrow> bool"
  fle :: "'f \<Rightarrow> 'f \<Rightarrow> bool"
  fint :: "int \<Rightarrow> 'f"
  fseconds :: "int \<Rightarrow> int \<Rightarrow> 'f"
  fscale :: "int \<Rightarrow> 'f \<Rightarrow> int option"
  fbig :: "int \<Rightarrow> 'f"

datatype SubsidyMode =
  SubsidyNone
  | SubsidyDestAvg
  | SubsidySumAvg
  | SubsidyCustom
  | SubsidyExtremeFixed
  | SubsidyPID
  | SubsidyLagrangian
  | SubsidyUnknown int

text \<open>
  A custom subsidy function has the Go type \<^verbatim>\<open>func(*big.Int, *big.Int) *big.Int\<close>: it
  receives the two averages as pointers and may write through them, as
  \<^verbatim>\<open>a.Add(a, b)\<close> does. It is a function from the values of its arguments to its
  result and the values it leaves in its first and in its second argument; a nil
  argument cannot be written and stays nil (\<open>written\<close>). The two arguments are distinct
  objects wherever this code calls such a function. A custom function is taken to
  compute from the values of its two arguments alone and to return: it keeps no state
  of its own, and it neither panics nor runs forever.
\<close>

type_synonym customFn = "bigint \<Rightarrow> bigint \<Rightarrow> bigint \<times> int \<times> int"

definition written :: "bigint \<Rightarrow> int \<Rightarrow> bigint" where
  "written arg v = (case arg of None \<Rightarrow> None | Some old \<Rightarrow> Some v)"

record 'f DynamicMetrics =
  QueueLengthA :: int
  QueueLengthB :: int
  AvgWaitTimeA :: 'f
  AvgWaitTimeB :: 'f
  CurrentInflation :: bigint

record 'f PIDState =
  Integral :: 'f
  PrevError :: 'f
  LastUpdate_pid :: int

record 'f PIDParams =
  Kp :: 'f
  Ki :: 'f
  Kd :: 'f
  TargetUtilization :: 'f
  CapacityB :: 'f
  MinSubsidy :: 'f
  MaxSubsidy :: 'f

record 'f LagrangianState =
  Lambda :: 'f
  TotalSubsidy :: bigint
  LastUpdate :: int
  EpochStartTime :: int

record 'f LagrangianParams =
  Alpha :: 'f
  WindowSize_lag :: 'f
  MinLambda :: 'f
  MaxLambda :: 'f
  CongestionExp :: 'f

record 'f Config =
  Mode :: SubsidyMode
  WindowBlocks :: int
  CustomF :: "customFn option"
  GammaMin :: bigint
  GammaMax :: bigint
  PIDParams :: "'f PIDParams"
  LagrangianParams :: "'f LagrangianParams"
  MaxInflation :: bigint
  TargetQueueLen :: int

record 'f Mechanism =
  config :: "'f Config"
  pidState :: "'f PIDState"
  lagrangianState :: "'f LagrangianState"

text \<open>
  \<^verbatim>\<open>NewMechanism\<close> at the instant \<open>now\<close>, for a configuration that is not nil (for nil
  the Go code takes \<^verbatim>\<open>DefaultConfig()\<close>).
\<close>

definition NewMechanism :: "'f Float64 \<Rightarrow> int \<Rightarrow> 'f Config \<Rightarrow> 'f Mechanism" where
  "NewMechanism fl now cfg =
     \<lparr>config = cfg,
      pidState = \<lparr>Integral = fint fl 0, PrevError = fint fl 0, LastUpdate_pid = now\<rparr>,
      lagrangianState = \<lparr>Lambda = fint fl 1, TotalSubsidy = Some 0, LastUpdate = now,
                         EpochStartTime = now\<rparr>\<rparr>"

definition calcPIDSubsidy ::
  "'f Float64 \<Rightarrow> int \<Rightarrow> 'f DynamicMetrics option \<Rightarrow> 'f Config \<Rightarrow> 'f PIDState \<Rightarrow> bigint
     \<Rightarrow> (int \<times> 'f PIDState) option" where
  "calcPIDSubsidy fl now metrics cfg state EB =
     (case (metrics, EB) of
        (Some metrics, Some EB) \<Rightarrow>
          (let params = PIDParams cfg;
               currentUtilization =
                 (if flt fl (fint fl 0) (CapacityB params)
                  then fdiv fl (fint fl (QueueLengthB metrics)) (CapacityB params)
                  else fdiv fl (fint fl (QueueLengthB metrics)) (fint fl 1000));
               err = fsub fl currentUtilization (TargetUtilization params);
               dt = fseconds fl now (LastUpdate_pid state);
               dt = (if fle fl dt (fint fl 0) then fint fl 1 else dt);
               integral = fadd fl (Integral state) (fmul fl err dt);
               maxIntegral = fint fl 10;
               integral = (if flt fl maxIntegral integral then maxIntegral
                           else if flt fl integral (fint fl (- 10)) then fint fl (- 10)
                           else integral);
               derivative = fdiv fl (fsub fl err (PrevError state)) dt;
               output = fadd fl (fadd fl (fmul fl (Kp params) err) (fmul fl (Ki params) integral))
                          (fmul fl (Kd params) derivative);
               state = \<lparr>Integral = integral, PrevError = err, LastUpdate_pid = now\<rparr>;
               multiplier = fadd fl (fint fl 1) output;
               multiplier = (if flt fl multiplier (MinSubsidy params) then MinSubsidy params
                             else multiplier);
               multiplier = (if flt fl (MaxSubsidy params) multiplier then MaxSubsidy params
                             else multiplier)
           in case fscale fl EB multiplier of
                None \<Rightarrow> None
              | Some result \<Rightarrow> Some (if result < 0 then 0 else result, state))
      | _ \<Rightarrow> Some (0, state))"

definition calcLagrangianSubsidy ::
  "'f Float64 \<Rightarrow> 'f DynamicMetrics option \<Rightarrow> 'f Config \<Rightarrow> 'f LagrangianState \<Rightarrow> bigint
     \<Rightarrow> int option" where
  "calcLagrangianSubsidy fl metrics cfg state EB =
     (case (metrics, EB) of
        (Some metrics, Some EB) \<Rightarrow>
          (let params = LagrangianParams cfg;
               congestionFactor =
                 (if flt fl (fint fl 0) (WindowSize_lag params)
                  then fpow fl (fdiv fl (fint fl (QueueLengthB metrics)) (WindowSize_lag params))
                         (CongestionExp params)
                  else fpow fl (fdiv fl (fint fl (QueueLengthB metrics)) (fint fl 1000))
                         (CongestionExp params));
               lambda = Lambda state;
               lambda = (if flt fl lambda (MinLambda params) then MinLambda params else lambda);
               multiplier = fdiv fl congestionFactor lambda
           in case fscale fl EB multiplier of
                None \<Rightarrow> None
              | Some result \<Rightarrow> Some (if result < 0 then 0 else result))
      | _ \<Rightarrow> Some 0)"



text \<open>
  \<^verbatim>\<open>CalculateRAB\<close> takes the lock and calls \<^verbatim>\<open>calculateRABInternal\<close>. The result is the
  subsidy, the two arguments as the call leaves them and the mechanism after the call,
  or \<^term>\<open>None\<close> for a panic.
\<close>

definition calculateRABInternal ::
  "'f Float64 \<Rightarrow> int \<Rightarrow> 'f Mechanism \<Rightarrow> bigint \<Rightarrow> bigint \<Rightarrow> 'f DynamicMetrics option
     \<Rightarrow> (int \<times> bigint \<times> bigint \<times> 'f Mechanism) option" where
  "calculateRABInternal fl now m EA EB metrics =
     (case Mode (config m) of
        SubsidyNone \<Rightarrow> Some (0, EA, EB, m)
      | SubsidyDestAvg \<Rightarrow>
          (case EB of None \<Rightarrow> Some (0, EA, EB, m) | Some eb \<Rightarrow> Some (eb, EA, EB, m))
      | SubsidySumAvg \<Rightarrow>
          (case (EA, EB) of
             (None, None) \<Rightarrow> Some (0, EA, EB, m)
           | (None, Some eb) \<Rightarrow> Some (eb, EA, EB, m)
           | (Some ea, None) \<Rightarrow> Some (ea, EA, EB, m)
           | (Some ea, Some eb) \<Rightarrow> Some (ea + eb, EA, EB, m))
      | SubsidyCustom \<Rightarrow>
          (case CustomF (config m) of
             Some customF \<Rightarrow>
               (case customF EA EB of
                  (None, a, b) \<Rightarrow> Some (0, written EA a, written EB b, m)
                | (Some result, a, b) \<Rightarrow> Some (result, written EA a, written EB b, m))
           | None \<Rightarrow>
               (case EB of Some eb \<Rightarrow> Some (eb, EA, EB, m) | None \<Rightarrow> Some (0, EA, EB, m)))
      | SubsidyExtremeFixed \<Rightarrow> Some (1000000000000000000, EA, EB, m)
      | SubsidyPID \<Rightarrow>
          (case calcPIDSubsidy fl now metrics (config m) (pidState m) EB of
             None \<Rightarrow> None
           | Some (result, state) \<Rightarrow> Some (result, EA, EB, m\<lparr>pidState := state\<rparr>))
      | SubsidyLagrangian \<Rightarrow>
          (case calcLagrangianSubsidy fl metrics (config m) (lagrangianState m) EB of
             None \<Rightarrow> None
           | Some result \<Rightarrow> Some (result, EA, EB, m))
      | SubsidyUnknown k \<Rightarrow> Some (0, EA, EB, m))"

definition CalculateRAB ::
  "'f Float64 \<Rightarrow> int \<Rightarrow> 'f Mechanism \<Rightarrow> bigint \<Rightarrow> bigint \<Rightarrow> 'f DynamicMetrics option
     \<Rightarrow> (int \<times> bigint \<times> bigint \<times> 'f Mechanism) option" where
  "CalculateRAB fl now m EA EB metrics = calculateRABInternal fl now m EA EB metrics"

text \<open>The stateless subsidy function: the subsidy and the two arguments as it leaves them.\<close>

definition RAB ::
  "SubsidyMode \<Rightarrow> bigint \<Rightarrow> bigint \<Rightarrow> 'f DynamicMetrics option \<Rightarrow> customFn option
     \<Rightarrow> int \<times> bigint \<times> bigint" where
  "RAB mode EA EB metrics customF =
     (case mode of
        SubsidyNone \<Rightarrow> (0, EA, EB)
      | SubsidyDestAvg \<Rightarrow> (case EB of None \<Rightarrow> (0, EA, EB) | Some eb \<Rightarrow> (eb, EA, EB))
      | SubsidySumAvg \<Rightarrow>
          (case (EA, EB) of
             (None, None) \<Rightarrow> (0, EA, EB)
           | (None, Some eb) \<Rightarrow> (eb, EA, EB)
           | (Some ea, None) \<Rightarrow> (ea, EA, EB)
           | (Some ea, Some eb) \<Rightarrow> (ea + eb, EA, EB))
      | SubsidyCustom \<Rightarrow>
          (case customF of
             Some f \<Rightarrow>
               (case f EA EB of
                  (None, a, b) \<Rightarrow> (0, written EA a, written EB b)
                | (Some result, a, b) \<Rightarrow> (result, written EA a, written EB b))
           | None \<Rightarrow> (case EB of Some eb \<Rightarrow> (eb, EA, EB) | None \<Rightarrow> (0, EA, EB)))
      | SubsidyExtremeFixed \<Rightarrow> (1000000000000000000, EA, EB)
      | SubsidyPID \<Rightarrow> (case EB of Some eb \<Rightarrow> (eb, EA, EB) | None \<Rightarrow> (0, EA, EB))
      | SubsidyLagrangian \<Rightarrow> (case EB of Some eb \<Rightarrow> (eb, EA, EB) | None \<Rightarrow> (0, EA, EB))
      | SubsidyUnknown k \<Rightarrow> (0, EA, EB))"

text \<open>
  The two score functions of the engine: the stateless one, which is given the subsidy,
  and the one of the mechanism, which asks \<^verbatim>\<open>CalculateRAB\<close> for it.
\<close>

definition ComputeCTXScore :: "bigint \<Rightarrow> bigint \<Rightarrow> bigint \<Rightarrow> bigint \<Rightarrow> bool \<Rightarrow> int" where
  "ComputeCTXScore fAB R EA EB isSourceShard =
     (case Split2 fAB R EA EB of (uA, uB) \<Rightarrow> if isSourceShard then uA else uB)"

definition Mechanism_ComputeCTXScore ::
  "'f Float64 \<Rightarrow> int \<Rightarrow> 'f Mechanism \<Rightarrow> bigint \<Rightarrow> bigint \<Rightarrow> bigint \<Rightarrow> 'f DynamicMetrics option
     \<Rightarrow> bool \<Rightarrow> (int \<times> bigint \<times> bigint \<times> 'f Mechanism) option" where
  "Mechanism_ComputeCTXScore fl now m fAB EA EB metrics isSourceShard =
     (case CalculateRAB fl now m EA EB metrics of
        None \<Rightarrow> None
      | Some (R, EA, EB, m) \<Rightarrow>
          (case Split2 fAB (Some R) EA EB of
             (uA, uB) \<Rightarrow> Some (if isSourceShard then uA else uB, EA, EB, m)))"






text \<open>
  \<^verbatim>\<open>float64\<close> on the rational numbers, every operation exact. IEEE-754 returns the exact
  result of an operation whenever that result is a \<^verbatim>\<open>float64\<close> value, so a run all of
  whose values are such values (here: numbers with fewer than 53 significant bits) and
  which never divides by zero is a run of the Go code. Instants are counted in seconds;
  the power is that of a natural exponent.
\<close>

definition exactFloat64 :: "rat Float64" where
  "exactFloat64 =
     \<lparr>fadd = (\<lambda>a b. a + b), fsub = (\<lambda>a b. a - b), fmul = (\<lambda>a b. a * b),
      fdiv = (\<lambda>a b. a / b), fpow = (\<lambda>a b. a ^ nat \<lfloor>b\<rfloor>),
      flt = (\<lambda>a b. a < b), fle = (\<lambda>a b. a \<le> b), fint = (\<lambda>i. of_int i),
      fseconds = (\<lambda>now last. of_int (now - last)),
      fscale = (\<lambda>e m. Some (if 0 \<le> of_int e * m then \<lfloor>of_int e * m\<rfloor> else \<lceil>of_int e * m\<rceil>)),
      fbig = (\<lambda>i. of_int i)\<rparr>"

section \<open>Scheduler (txpool/scheduler/select.go)\<close>

text \<open>
  Of a transaction, the fields the scheduler reads or writes, with the sender, recipient
  and nonce that identify it. The fields \<^verbatim>\<open>UtilityA\<close> and \<^verbatim>\<open>UtilityB\<close> are written
  \<open>UtilityA_tx\<close> and \<open>UtilityB_tx\<close>. The pool is a list of pointers to distinct
  transactions, none of them nil; a scored transaction is returned with the fields the
  scheduler wrote.
\<close>

record Transaction =
  Sender :: string
  Recipient :: string
  Nonce :: "64 word"
  FromShard :: int
  ToShard :: int
  IsCrossShard :: bool
  FeeToProposer :: bigint
  ArrivalTime :: int
  SubsidyR :: bigint
  UtilityA_tx :: bigint
  UtilityB_tx :: bigint
  JustitiaCase :: int

text \<open>The Go field \<^verbatim>\<open>Case\<close> is 0 for an intra-shard transaction: \<^term>\<open>None\<close> here.\<close>

record TxWithScore =
  Tx :: Transaction
  Score :: int
  TxCase :: "Case option"

record 'f Scheduler =
  ShardID :: int
  NumShards :: int
  FeeTracker :: Tracker
  SubsidyMode :: SubsidyMode
  CustomSubsidy :: "customFn option"
  Mechanism :: "'f Mechanism option"
  epochSubsidyTotal :: int
  epochTxCount :: int

definition caseNumber :: "Case \<Rightarrow> int" where
  "caseNumber c = (case c of Case1 \<Rightarrow> 1 | Case2 \<Rightarrow> 2 | Case3 \<Rightarrow> 3)"

text \<open>
  \<^verbatim>\<open>scoreCTX\<close> is handed the pointer \<open>EA0\<close> that \<^verbatim>\<open>SelectForBlock\<close> holds for the local
  average. When the local shard is the source, that very pointer goes to the subsidy
  function, to the split and to the classification, so that what a custom function
  writes into it stays for the rest of the selection; the result therefore carries the
  value found behind the pointer of \<^verbatim>\<open>SelectForBlock\<close> after the call. The average of
  the other shard is a fresh copy made by the tracker at each call.
\<close>

definition scoreCTX ::
  "'f Float64 \<Rightarrow> int \<Rightarrow> 'f Scheduler \<Rightarrow> Transaction \<Rightarrow> bigint
     \<Rightarrow> ((int \<times> Case) \<times> Transaction \<times> 'f Scheduler \<times> bigint) option" where
  "scoreCTX fl now s tx EA0 =
     (let isSourceShard = (FromShard tx = ShardID s);
          EB = (if isSourceShard then Some (GetAvgITXFee (FeeTracker s) (ToShard tx))
                else Some (GetAvgITXFee (FeeTracker s) (ShardID s)));
          EA = (if isSourceShard then EA0 else Some (GetAvgITXFee (FeeTracker s) (FromShard tx)));
          subsidy =
            (case Mechanism s of
               Some m \<Rightarrow>
                 (let metrics = \<lparr>QueueLengthA = 0, QueueLengthB = 600, AvgWaitTimeA = fint fl 0,
                                  AvgWaitTimeB = fint fl 0, CurrentInflation = None\<rparr>
                  in case CalculateRAB fl now m EA EB (Some metrics) of
                       None \<Rightarrow> None
                     | Some (R, EA, EB, m') \<Rightarrow> Some (R, EA, EB, s\<lparr>Mechanism := Some m'\<rparr>))
             | None \<Rightarrow>
                 (case RAB (SubsidyMode s) EA EB (None :: 'f DynamicMetrics option)
                         (CustomSubsidy s) of
                    (R, EA, EB) \<Rightarrow> Some (R, EA, EB, s)))
      in case subsidy of
           None \<Rightarrow> None
         | Some (R, EA, EB, s) \<Rightarrow>
             (let tx = tx\<lparr>SubsidyR := Some R\<rparr>;
                  s = (if Mechanism s \<noteq> None \<and> SubsidyMode s = SubsidyLagrangian
                       then s\<lparr>epochSubsidyTotal := epochSubsidyTotal s + R,
                              epochTxCount := epochTxCount s + 1\<rparr>
                       else s);
                  fee = orZero (FeeToProposer tx);
                  (uA, uB) = Split2 (Some fee) (Some R) EA EB;
                  tx = tx\<lparr>UtilityA_tx := Some uA, UtilityB_tx := Some uB\<rparr>
              in if isSourceShard
                 then (let txCase = Classify (Some uA) EA EB;
                           tx = tx\<lparr>JustitiaCase := caseNumber txCase\<rparr>
                       in Some ((uA, txCase), tx, s, EA))
                 else (let tx = (if JustitiaCase tx = 0
                                 then tx\<lparr>JustitiaCase := caseNumber Case1\<rparr> else tx)
                       in Some ((uB, Case1), tx, s, EA0))))"

text \<open>
  The scoring of the pool, one transaction after the other. \<open>clk i\<close> is what
  \<^verbatim>\<open>time.Now()\<close> returns while the transaction at index \<open>i\<close> of the pool is scored (only
  the PID controller reads it). The result is the scored entries, the scheduler and the
  value behind the pointer \<open>EA\<close> after the scoring.
\<close>

fun scoreAll ::
  "'f Float64 \<Rightarrow> (nat \<Rightarrow> int) \<Rightarrow> nat \<Rightarrow> 'f Scheduler \<Rightarrow> bigint \<Rightarrow> Transaction list
     \<Rightarrow> (TxWithScore list \<times> 'f Scheduler \<times> bigint) option" where
  "scoreAll fl clk i s EA [] = Some ([], s, EA)"
| "scoreAll fl clk i s EA (tx # txs) =
     (if IsCrossShard tx
      then (case scoreCTX fl (clk i) s tx EA of
              None \<Rightarrow> None
            | Some ((score, txCase), tx', s', EA') \<Rightarrow>
                (case scoreAll fl clk (Suc i) s' EA' txs of
                   None \<Rightarrow> None
                 | Some (scored, s'', EA'') \<Rightarrow>
                     Some (\<lparr>Tx = tx', Score = score, TxCase = Some txCase\<rparr> # scored, s'', EA'')))
      else (let fee = orZero (FeeToProposer tx)
            in case scoreAll fl clk (Suc i) s EA txs of
                 None \<Rightarrow> None
               | Some (scored, s'', EA'') \<Rightarrow>
                   Some (\<lparr>Tx = tx, Score = fee, TxCase = None\<rparr> # scored, s'', EA'')))"

text \<open>
  The distribution of the scored transactions over the three phases. An intra-shard
  transaction is compared with the value behind \<open>EA\<close>; comparing with nil panics.
\<close>

fun partitionPhases ::
  "bigint \<Rightarrow> TxWithScore list
     \<Rightarrow> (TxWithScore list \<times> TxWithScore list \<times> TxWithScore list) option" where
  "partitionPhases EA [] = Some ([], [], [])"
| "partitionPhases EA (x # xs) =
     (case partitionPhases EA xs of
        None \<Rightarrow> None
      | Some (phase1, phase2, phase3) \<Rightarrow>
          if IsCrossShard (Tx x)
          then (case TxCase x of
                  Some Case1 \<Rightarrow> Some (x # phase1, phase2, phase3)
                | Some Case2 \<Rightarrow> Some (phase1, phase2, x # phase3)
                | Some Case3 \<Rightarrow> Some (phase1, x # phase2, phase3)
                | None \<Rightarrow> Some (phase1, phase2, phase3))
          else (case EA of
                  None \<Rightarrow> None
                | Some ea \<Rightarrow>
                    if Score x \<ge> ea then Some (x # phase1, phase2, phase3)
                    else Some (phase1, x # phase2, phase3)))"

text \<open>The comparison handed to \<^verbatim>\<open>sort.Slice\<close>, the same for the three phases.\<close>

definition lessScore :: "TxWithScore \<Rightarrow> TxWithScore \<Rightarrow> bool" where
  "lessScore a b =
     (if Score a \<noteq> Score b then Score a > Score b
      else ArrivalTime (Tx a) < ArrivalTime (Tx b))"

text \<open>The appending of a sorted phase to the selection until the block is full.\<close>

fun fillBlock :: "int \<Rightarrow> Transaction list \<Rightarrow> TxWithScore list \<Rightarrow> Transaction list" where
  "fillBlock capacity selected [] = selected"
| "fillBlock capacity selected (x # xs) =
     (if int (length selected) \<ge> capacity then selected
      else fillBlock capacity (selected @ [Tx x]) xs)"

text \<open>
  \<^verbatim>\<open>sort.Slice\<close> belongs to the Go library; it is the parameter \<open>srt\<close>. It is not stable:
  what is known of its result is that it is a permutation of the slice in which no element
  is less than one before it. The insertion sort \<open>sortSlice\<close> is one such function.
\<close>

definition SelectForBlock ::
  "'f Float64 \<Rightarrow> (nat \<Rightarrow> int)
     \<Rightarrow> ((TxWithScore \<Rightarrow> TxWithScore \<Rightarrow> bool) \<Rightarrow> TxWithScore list \<Rightarrow> TxWithScore list)
     \<Rightarrow> 'f Scheduler \<Rightarrow> int \<Rightarrow> Transaction list \<Rightarrow> (Transaction list \<times> 'f Scheduler) option" where
  "SelectForBlock fl clk srt s capacity txPool =
     (if capacity \<le> 0 \<or> length txPool = 0 then Some ([], s)
      else
        let EA = Some (GetAvgITXFee (FeeTracker s) (ShardID s))
        in case scoreAll fl clk 0 s EA txPool of
             None \<Rightarrow> None
           | Some (scored, s', EA) \<Rightarrow>
               (case partitionPhases EA scored of
                  None \<Rightarrow> None
                | Some (phase1, phase2, phase3) \<Rightarrow>
                    (let selected = fillBlock capacity [] (srt lessScore phase1);
                         selected = (if int (length selected) < capacity
                                     then fillBlock capacity selected (srt lessScore phase2)
                                     else selected);
                         selected = (if int (length selected) < capacity \<and> length phase3 > 0
                                     then fillBlock capacity selected (srt lessScore phase3)
                                     else selected)
                     in Some (selected, s'))))"

text \<open>What is known of \<^verbatim>\<open>sort.Slice\<close> called with the comparison \<open>lt\<close>.\<close>

definition sortsSlice :: "(('a \<Rightarrow> 'a \<Rightarrow> bool) \<Rightarrow> 'a list \<Rightarrow> 'a list) \<Rightarrow> ('a \<Rightarrow> 'a \<Rightarrow> bool) \<Rightarrow> bool" where
  "sortsSlice srt lt =
     (\<forall>xs. mset (srt lt xs) = mset xs \<and> sorted_wrt (\<lambda>a b. \<not> lt b a) (srt lt xs))"

fun insertSlice :: "('a \<Rightarrow> 'a \<Rightarrow> bool) \<Rightarrow> 'a \<Rightarrow> 'a list \<Rightarrow> 'a list" where
  "insertSlice lt x [] = [x]"
| "insertSlice lt x (y # ys) = (if lt y x then y # insertSlice lt x ys else x # y # ys)"

fun sortSlice :: "('a \<Rightarrow> 'a \<Rightarrow> bool) \<Rightarrow> 'a list \<Rightarrow> 'a list" where
  "sortSlice lt [] = []"
| "sortSlice lt (x # xs) = insertSlice lt x (sortSlice lt xs)"

section \<open>The scheduler in the words of the specification\<close>

text \<open>
  A subsidy function keeps its arguments when it leaves in each of them the value it
  found there; every built-in mode does. A scheduler is read-only when its custom
  function and that of its mechanism, where it has them, keep their arguments.
\<close>

definition keepsArguments :: "customFn option \<Rightarrow> bool" where
  "keepsArguments customF =
     (case customF of None \<Rightarrow> True | Some f \<Rightarrow> (\<forall>a b. snd (f (Some a) (Some b)) = (a, b)))"

definition readOnly :: "'f Scheduler \<Rightarrow> bool" where
  "readOnly s =
     (keepsArguments (CustomSubsidy s)
      \<and> (case Mechanism s of None \<Rightarrow> True | Some m \<Rightarrow> keepsArguments (CustomF (config m))))"

text \<open>
  The averages of a transfer: that of its source shard, and that of its destination
  shard as the local shard \<open>sh\<close> sees it (the local average when the local shard is not
  the source). The metrics a scheduler hands to its mechanism have the fixed queue
  length 600.
\<close>

definition sourceAvg :: "Tracker \<Rightarrow> Transaction \<Rightarrow> int" where
  "sourceAvg tr tx = GetAvgITXFee tr (FromShard tx)"

definition destAvg :: "Tracker \<Rightarrow> int \<Rightarrow> Transaction \<Rightarrow> int" where
  "destAvg tr sh tx =
     (if FromShard tx = sh then GetAvgITXFee tr (ToShard tx) else GetAvgITXFee tr sh)"

definition schedulerMetrics :: "'f Float64 \<Rightarrow> 'f DynamicMetrics" where
  "schedulerMetrics fl =
     \<lparr>QueueLengthA = 0, QueueLengthB = 600, AvgWaitTimeA = fint fl 0, AvgWaitTimeB = fint fl 0,
      CurrentInflation = None\<rparr>"

text \<open>
  Asking the subsidy engine for the subsidy of a transfer: the mechanism when the
  scheduler has one, the stateless function otherwise. The result is the subsidy and the
  scheduler after the call, with the subsidy added to the epoch total under the
  Lagrangian mode.
\<close>

definition askEngine ::
  "'f Float64 \<Rightarrow> int \<Rightarrow> 'f Scheduler \<Rightarrow> Transaction \<Rightarrow> (int \<times> 'f Scheduler) option" where
  "askEngine fl now s tx =
     (let EA = Some (sourceAvg (FeeTracker s) tx);
          EB = Some (destAvg (FeeTracker s) (ShardID s) tx)
      in case Mechanism s of
           Some m \<Rightarrow>
             (case CalculateRAB fl now m EA EB (Some (schedulerMetrics fl)) of
                None \<Rightarrow> None
              | Some (R, a, b, m') \<Rightarrow>
                  Some (R, if SubsidyMode s = SubsidyLagrangian
                           then s\<lparr>Mechanism := Some m',
                                  epochSubsidyTotal := epochSubsidyTotal s + R,
                                  epochTxCount := epochTxCount s + 1\<rparr>
                           else s\<lparr>Mechanism := Some m'\<rparr>))
         | None \<Rightarrow>
             Some (fst (RAB (SubsidyMode s) EA EB (None :: 'f DynamicMetrics option)
                          (CustomSubsidy s)), s))"

text \<open>
  The scored entry of a transaction. An intra-shard transaction is scored by its fee and
  has no case. A transfer with subsidy \<open>R\<close> is split; at its source shard its score is
  \<open>u_A\<close> and its case the classification of \<open>u_A\<close>, elsewhere its score is \<open>u_B\<close> and its
  case Case1. The subsidy and the two utilities are written on the transaction, and the
  number of the case where the local shard is the source or the transaction carries no
  case yet.
\<close>

definition scoredITX :: "Transaction \<Rightarrow> TxWithScore" where
  "scoredITX tx = \<lparr>Tx = tx, Score = orZero (FeeToProposer tx), TxCase = None\<rparr>"

definition scoredCTX :: "Tracker \<Rightarrow> int \<Rightarrow> Transaction \<Rightarrow> int \<Rightarrow> TxWithScore" where
  "scoredCTX tr sh tx R =
     (let EA = Some (sourceAvg tr tx);
          EB = Some (destAvg tr sh tx);
          uA = fst (Split2 (FeeToProposer tx) (Some R) EA EB);
          uB = snd (Split2 (FeeToProposer tx) (Some R) EA EB);
          c = (if FromShard tx = sh then Classify (Some uA) EA EB else Case1)
      in \<lparr>Tx = tx\<lparr>SubsidyR := Some R, UtilityA_tx := Some uA, UtilityB_tx := Some uB,
                  JustitiaCase := (if FromShard tx = sh \<or> JustitiaCase tx = 0 then caseNumber c
                                   else JustitiaCase tx)\<rparr>,
          Score = (if FromShard tx = sh then uA else uB),
          TxCase = Some c\<rparr>)"

fun scoring ::
  "'f Float64 \<Rightarrow> (nat \<Rightarrow> int) \<Rightarrow> nat \<Rightarrow> 'f Scheduler \<Rightarrow> Transaction list
     \<Rightarrow> (TxWithScore list \<times> 'f Scheduler) option" where
  "scoring fl clk i s [] = Some ([], s)"
| "scoring fl clk i s (tx # txs) =
     (if IsCrossShard tx
      then (case askEngine fl (clk i) s tx of
              None \<Rightarrow> None
            | Some (R, s1) \<Rightarrow>
                (case scoring fl clk (Suc i) s1 txs of
                   None \<Rightarrow> None
                 | Some (scored, s2) \<Rightarrow>
                     Some (scoredCTX (FeeTracker s) (ShardID s) tx R # scored, s2)))
      else (case scoring fl clk (Suc i) s txs of
              None \<Rightarrow> None
            | Some (scored, s2) \<Rightarrow> Some (scoredITX tx # scored, s2)))"

text \<open>
  The three phases and the order within a phase: phase 1 holds the intra-shard
  transactions whose fee is at least the local average \<open>ea\<close> and the transfers of Case1,
  phase 2 the intra-shard ones below the average and the transfers of Case3, phase 3 the
  transfers of Case2; within a phase a higher score comes first and, at equal score, the
  earlier arrival.
\<close>

definition inPhase1 :: "int \<Rightarrow> TxWithScore \<Rightarrow> bool" where
  "inPhase1 ea x =
     (if IsCrossShard (Tx x) then TxCase x = Some Case1 else orZero (FeeToProposer (Tx x)) \<ge> ea)"

definition inPhase2 :: "int \<Rightarrow> TxWithScore \<Rightarrow> bool" where
  "inPhase2 ea x =
     (if IsCrossShard (Tx x) then TxCase x = Some Case3 else orZero (FeeToProposer (Tx x)) < ea)"

definition inPhase3 :: "TxWithScore \<Rightarrow> bool" where
  "inPhase3 x = (IsCrossShard (Tx x) \<and> TxCase x = Some Case2)"

definition scoreThenArrival :: "TxWithScore \<Rightarrow> TxWithScore \<Rightarrow> bool" where
  "scoreThenArrival a b =
     (Score a > Score b \<or> (Score a = Score b \<and> ArrivalTime (Tx a) \<le> ArrivalTime (Tx b)))"

text \<open>
  The selection from a scored pool: three lists, permutations of the entries of the three
  phases, each in the order of its phase, and the transactions of the first \<open>capacity\<close>
  entries of the three lists one after the other.
\<close>

definition selects ::
  "int \<Rightarrow> int \<Rightarrow> TxWithScore list \<Rightarrow> TxWithScore list \<Rightarrow> TxWithScore list \<Rightarrow> TxWithScore list
     \<Rightarrow> Transaction list \<Rightarrow> bool" where
  "selects ea capacity scored S1 S2 S3 selected =
     (mset S1 = mset (filter (inPhase1 ea) scored)
      \<and> mset S2 = mset (filter (inPhase2 ea) scored)
      \<and> mset S3 = mset (filter inPhase3 scored)
      \<and> sorted_wrt scoreThenArrival S1
      \<and> sorted_wrt scoreThenArrival S2
      \<and> sorted_wrt scoreThenArrival S3
      \<and> selected = map Tx (take (nat capacity) (S1 @ S2 @ S3)))"

section \<open>Concrete shards, mechanisms and transactions for the scenarios\<close>

text \<open>
  Shard 0 of two, with local average 1000 and remote average 990, no subsidy and no
  controller; \<open>noFloat64\<close> stands for the floating-point operations in runs where none is
  performed. The pool holds two intra-shard transactions with fees 1200 and 500 and two
  cross-shard transfers to shard 1 with fees 2990 and 10.
\<close>

definition noFloat64 :: "unit Float64" where
  "noFloat64 =
     \<lparr>fadd = (\<lambda>a b. ()), fsub = (\<lambda>a b. ()), fmul = (\<lambda>a b. ()), fdiv = (\<lambda>a b. ()),
      fpow = (\<lambda>a b. ()), flt = (\<lambda>a b. False), fle = (\<lambda>a b. False), fint = (\<lambda>i. ()),
      fseconds = (\<lambda>now last. ()), fscale = (\<lambda>e m. None), fbig = (\<lambda>i. ())\<rparr>"

definition clock0 :: "nat \<Rightarrow> int" where
  "clock0 i = 0"

definition tracker0 :: Tracker where
  "tracker0 =
     (case UpdateRemoteShardFee (NewTracker 16) 0 (Some 1000) of
        None \<Rightarrow> NewTracker 16
      | Some t \<Rightarrow>
          (case UpdateRemoteShardFee t 1 (Some 990) of None \<Rightarrow> t | Some t' \<Rightarrow> t'))"

definition sched0 :: "unit Scheduler" where
  "sched0 =
     \<lparr>ShardID = 0, NumShards = 2, FeeTracker = tracker0, SubsidyMode = SubsidyNone,
      CustomSubsidy = None, Mechanism = None, epochSubsidyTotal = 0, epochTxCount = 0\<rparr>"

definition newTx :: "string \<Rightarrow> string \<Rightarrow> int \<Rightarrow> int \<Rightarrow> int \<Rightarrow> int \<Rightarrow> Transaction" where
  "newTx sender recipient fromShard toShard fee arrival =
     \<lparr>Sender = sender, Recipient = recipient, Nonce = 0, FromShard = fromShard, ToShard = toShard,
      IsCrossShard = (fromShard \<noteq> toShard), FeeToProposer = Some fee, ArrivalTime = arrival,
      SubsidyR = Some 0, UtilityA_tx = Some 0, UtilityB_tx = Some 0, JustitiaCase = 0\<rparr>"

definition itx1200 :: Transaction where
  "itx1200 = newTx ''a1'' ''a2'' 0 0 1200 1"

definition itx500 :: Transaction where
  "itx500 = newTx ''a3'' ''a4'' 0 0 500 2"

definition ctx2990 :: Transaction where
  "ctx2990 = newTx ''a5'' ''b1'' 0 1 2990 3"

definition ctx10 :: Transaction where
  "ctx10 = newTx ''a6'' ''b2'' 0 1 10 4"

text \<open>
  The same shard with the custom subsidy function
  \<^verbatim>\<open>func(a, b *big.Int) *big.Int { return a.Add(a, b) }\<close>, which returns the sum of the
  two averages and leaves it in its first argument (the scheduler hands it no nil).
\<close>

definition addInto :: customFn where
  "addInto a b = (Some (orZero a + orZero b), orZero a + orZero b, orZero b)"

definition schedAdd :: "unit Scheduler" where
  "schedAdd = sched0\<lparr>SubsidyMode := SubsidyCustom, CustomSubsidy := Some addInto\<rparr>"

text \<open>
  A mechanism in PID mode created at instant 0, with gains 1, 1 and 2, target utilization
  1/4, capacity 1200 and multipliers between 0 and 4, and the metrics of a queue of 600
  at the destination.
\<close>

definition pidConfig :: "rat Config" where
  "pidConfig =
     \<lparr>Mode = SubsidyPID, WindowBlocks = 16, CustomF = None, GammaMin = Some 0, GammaMax = Some 0,
      PIDParams = \<lparr>Kp = 1, Ki = 1, Kd = 2, TargetUtilization = 1 / 4, CapacityB = 1200,
                   MinSubsidy = 0, MaxSubsidy = 4\<rparr>,
      LagrangianParams = \<lparr>Alpha = 1 / 8, WindowSize_lag = 1000, MinLambda = 1, MaxLambda = 10,
                          CongestionExp = 2\<rparr>,
      MaxInflation = Some 4000000000000000000, TargetQueueLen = 100\<rparr>"

definition pidMech :: "rat Mechanism" where
  "pidMech = NewMechanism exactFloat64 0 pidConfig"

definition queue600 :: "rat DynamicMetrics" where
  "queue600 = \<lparr>QueueLengthA = 0, QueueLengthB = 600, AvgWaitTimeA = 0, AvgWaitTimeB = 0,
               CurrentInflation = None\<rparr>"



section \<open>Properties of the Shapley split\<close>

lemma Split2_Some:
  "Split2 (Some f) (Some R) (Some EA) (Some EB) =
     (if (f + R + (EA - EB)) div 2 < 0 then (0, f + R)
      else if (f + R - (EA - EB)) div 2 < 0 then (f + R, 0)
      else ((f + R + (EA - EB)) div 2, (f + R - (EA - EB)) div 2))"
  by (simp add: Split2_def orZero_def Let_def)

text \<open>Both utilities of non-negative inputs are non-negative.\<close>

lemma Split2_nonneg:
  assumes "0 \<le> f" "0 \<le> R" "0 \<le> EA" "0 \<le> EB"
  shows "0 \<le> fst (Split2 (Some f) (Some R) (Some EA) (Some EB))
       \<and> 0 \<le> snd (Split2 (Some f) (Some R) (Some EA) (Some EB))"
  using assms unfolding Split2_Some by auto

lemma halves_sum: "(t + d) div 2 + (t - d) div 2 = (if even (t + d) then t else t - (1::int))"
proof (cases "even (t + d)")
  case True
  then obtain k where k: "t + d = 2 * k" by (rule evenE)
  then have "t - d = 2 * (t - k)" by simp
  with k True show ?thesis by simp
next
  case False
  then obtain k where k: "t + d = 2 * k + 1" by (rule oddE)
  then have "t - d = 2 * (t - k - 1) + 1" by simp
  with k False show ?thesis by simp
qed

text \<open>
  The utilities add up to the fee plus the subsidy when one of them is clamped or when
  \<open>f + R + EA - EB\<close> is even, and to one unit less otherwise.
\<close>

lemma Split2_sum:
  "fst (Split2 (Some f) (Some R) (Some EA) (Some EB))
     + snd (Split2 (Some f) (Some R) (Some EA) (Some EB)) =
     (if (f + R + (EA - EB)) div 2 < 0 \<or> (f + R - (EA - EB)) div 2 < 0
         \<or> even (f + R + (EA - EB))
      then f + R else f + R - 1)"
  unfolding Split2_Some using halves_sum [of "f + R" "EA - EB"] by auto

text \<open>
  C1 (split conservation). The split of fee 1001 with subsidy 500 under averages 200 and
  100 is (800, 700): both halves are rounded down and one unit of the total 1501 is lost,
  so the sum of the utilities is not the fee plus the subsidy.
\<close>

theorem Split2_odd_total_loses_unit:
  "Split2 (Some 1001) (Some 500) (Some 200) (Some 100) = (800, 700)
   \<and> fst (Split2 (Some 1001) (Some 500) (Some 200) (Some 100))
       + snd (Split2 (Some 1001) (Some 500) (Some 200) (Some 100)) \<noteq> 1001 + 500"
  unfolding Split2_Some by simp

section \<open>Classification\<close>

lemma Classify_Some:
  "Classify (Some uA) (Some EA) (Some EB) =
     (if uA \<ge> EA then Case1
      else if EB \<ge> EA then (if uA \<le> 0 then Case2 else Case3)
      else if uA \<le> EA - EB then Case2 else Case3)"
  by (simp add: Classify_def orZero_def Let_def)

text \<open>
  C4 (classification). Case1 is returned exactly when \<open>uA \<ge> EA\<close>. Case2 is returned
  exactly when \<open>uA < EA\<close> and \<open>uA\<close> is at most the lower threshold, which is \<open>EA - EB\<close>
  when \<open>EB < EA\<close> and 0 when \<open>EB \<ge> EA\<close>. Case3 is returned exactly when \<open>uA\<close> is
  strictly between that lower threshold and \<open>EA\<close>. This holds for all integers, so in
  particular for the non-negative ones.
\<close>

theorem Classify_cases:
  "(Classify (Some uA) (Some EA) (Some EB) = Case1 \<longleftrightarrow> uA \<ge> EA)
   \<and> (Classify (Some uA) (Some EA) (Some EB) = Case2 \<longleftrightarrow>
        uA < EA \<and> (if EB \<ge> EA then uA \<le> 0 else uA \<le> EA - EB))
   \<and> (Classify (Some uA) (Some EA) (Some EB) = Case3 \<longleftrightarrow>
        (if EB \<ge> EA then 0 < uA else EA - EB < uA) \<and> uA < EA)"
  unfolding Classify_Some by auto

section \<open>Proposer fee\<close>

lemma ComputeProposerFee_formula:
  "ComputeProposerFee r =
     (if EIP2718Type r = 0 \<or> EIP2718Type r = 1 then
        (case GasPrice r of None \<Rightarrow> 0 | Some gp \<Rightarrow> uint (GasUsed r) * gp)
      else if EIP2718Type r = 2 \<or> EIP2718Type r = 3 then
        (case BaseFeePerGas r of None \<Rightarrow> 0 | Some base \<Rightarrow>
         case MaxFeePerGas r of None \<Rightarrow> 0 | Some maxFee \<Rightarrow>
         case MaxPriorityFeePerGas r of None \<Rightarrow> 0 | Some prio \<Rightarrow>
           uint (GasUsed r) * max (min maxFee (base + prio) - base) 0)
      else 0)"
  by (simp add: ComputeProposerFee_def Let_def max_def min_def split: option.split)

lemma ComputeProposerFee_IsError:
  "ComputeProposerFee (r\<lparr>IsError := e\<rparr>) = ComputeProposerFee r"
  by (simp add: ComputeProposerFee_def Let_def cong: if_cong)

lemma ComputeProposerFee_blob:
  "ComputeProposerFee (r\<lparr>BlobHashes := hs, BlobBaseFeePerGas := bb, BlobGasUsed := bg\<rparr>)
     = ComputeProposerFee r"
  by (simp add: ComputeProposerFee_def Let_def cong: if_cong)

text \<open>
  C8 (proposer fee). For every row the fee is the gas used times the gas price for types 0
  and 1, the gas used times the tip \<open>max (min maxFee (base + prio) - base) 0\<close> for types 2
  and 3, and 0 for any other type; a price field that the type reads and that is nil gives
  0. The error flag and the blob fields of the row do not change the result.
\<close>

theorem ComputeProposerFee_by_type:
  "ComputeProposerFee r =
     (if EIP2718Type r = 0 \<or> EIP2718Type r = 1 then
        (case GasPrice r of None \<Rightarrow> 0 | Some gp \<Rightarrow> uint (GasUsed r) * gp)
      else if EIP2718Type r = 2 \<or> EIP2718Type r = 3 then
        (case BaseFeePerGas r of None \<Rightarrow> 0 | Some base \<Rightarrow>
         case MaxFeePerGas r of None \<Rightarrow> 0 | Some maxFee \<Rightarrow>
         case MaxPriorityFeePerGas r of None \<Rightarrow> 0 | Some prio \<Rightarrow>
           uint (GasUsed r) * max (min maxFee (base + prio) - base) 0)
      else 0)
   \<and> ComputeProposerFee (r\<lparr>IsError := e\<rparr>) = ComputeProposerFee r
   \<and> ComputeProposerFee (r\<lparr>BlobHashes := hs, BlobBaseFeePerGas := bb, BlobGasUsed := bg\<rparr>)
       = ComputeProposerFee r"
  using ComputeProposerFee_formula ComputeProposerFee_IsError ComputeProposerFee_blob by blast

section \<open>Shard of an address\<close>

lemmas sha256_eval =
  sha256_def sha256Pad_def stringBytes_def bigEndian64_def sha256Block_def sha256Schedule_def
  sha256Round_def sha256Step_def sha256T1_def sha256T2_def sha256Word_def sha256K_def sha256Init_def
  smallSigma0_def smallSigma1_def bigSigma0_def bigSigma1_def sha256Ch_def sha256Maj_def not32_def rotr_def
  add32_def

lemma replicate_numeral_Cons: "replicate (numeral k) x = x # replicate (pred_numeral k) x"
  by (simp add: numeral_eq_Suc)

text \<open>The digest of the three bytes \<open>abc\<close>, the first example of FIPS 180-4.\<close>

lemma sha256_abc:
  "sha256 (stringBytes ''abc'') =
     [0xba7816bf, 0x8f01cfea, 0x414140de, 0x5dae2223, 0xb00361a3, 0x96177a9c, 0xb410ff61, 0xf20015ad]"
  by (simp add: sha256_eval replicate_numeral_Cons)

lemma normalized_once:
  "TrimPrefix (ToLower ul ''0x1234567890abcdef1234567890abcdef12345678'') ''0x''
     = ''1234567890abcdef1234567890abcdef12345678''"
  by (simp add: TrimPrefix_def ToLower_def isASCII_def asciiLower_def)

lemma normalized_twice:
  "TrimPrefix (ToLower ul ''0x0x1234567890abcdef1234567890abcdef12345678'') ''0x''
     = ''0x1234567890abcdef1234567890abcdef12345678''"
  by (simp add: TrimPrefix_def ToLower_def isASCII_def asciiLower_def)

lemma ToLower_0x: "isASCII a \<Longrightarrow> ToLower ul (''0x'' @ a) = ''0x'' @ map asciiLower a"
  by (simp add: ToLower_def isASCII_def asciiLower_def)

lemma TrimPrefix_0x: "TrimPrefix (''0x'' @ s) ''0x'' = s"
  by (simp add: TrimPrefix_def)

lemma TrimPrefix_none: "\<not> HasPrefix s pre \<Longrightarrow> TrimPrefix s pre = s"
  by (simp add: TrimPrefix_def)

text \<open>
  C10 as stated fails: the address \<open>0x1234567890abcdef1234567890abcdef12345678\<close> is in
  shard 2 of 4, and the same address with a second \<open>0x\<close> in front is in shard 1, because
  only one prefix is stripped before hashing.
\<close>

theorem MapShard_double_prefix_counterexample:
  "MapShard id ''0x1234567890abcdef1234567890abcdef12345678'' 4 = 2
   \<and> MapShard id (''0x'' @ ''0x1234567890abcdef1234567890abcdef12345678'') 4 = 1
   \<and> MapShard id (''0x'' @ ''0x1234567890abcdef1234567890abcdef12345678'') 4
       \<noteq> MapShard id ''0x1234567890abcdef1234567890abcdef12345678'' 4"
proof -
  have one: "MapShard id ''0x1234567890abcdef1234567890abcdef12345678'' 4 = 2"
    unfolding MapShard_def normalized_once by (simp add: sha256_eval replicate_numeral_Cons)
  have "''0x'' @ ''0x1234567890abcdef1234567890abcdef12345678''
          = ''0x0x1234567890abcdef1234567890abcdef12345678''" by simp
  then have two: "MapShard id (''0x'' @ ''0x1234567890abcdef1234567890abcdef12345678'') 4 = 1"
    unfolding MapShard_def
    by (simp only: normalized_twice) (simp add: sha256_eval replicate_numeral_Cons)
  from one two show ?thesis by simp
qed

text \<open>
  C10, amended (address normalization). Two addresses with the same lower-case form are
  in the same shard; for addresses of ASCII bytes, that is two addresses that differ only
  in the case of their letters. Writing \<open>0x\<close> in front of an address of ASCII bytes whose
  lower-case form does not itself begin with \<open>0x\<close> leaves its shard unchanged.
\<close>

theorem MapShard_normalization:
  "(ToLower ul a = ToLower ul b \<longrightarrow> MapShard ul a n = MapShard ul b n)
   \<and> (isASCII a \<and> isASCII b \<and> map asciiLower a = map asciiLower b
      \<longrightarrow> MapShard ul a n = MapShard ul b n)
   \<and> (isASCII a \<and> \<not> HasPrefix (map asciiLower a) ''0x''
      \<longrightarrow> MapShard ul (''0x'' @ a) n = MapShard ul a n)"
proof (intro conjI impI)
  assume "ToLower ul a = ToLower ul b"
  then show "MapShard ul a n = MapShard ul b n" by (simp add: MapShard_def)
next
  assume "isASCII a \<and> isASCII b \<and> map asciiLower a = map asciiLower b"
  then have "ToLower ul a = ToLower ul b" by (simp add: ToLower_def)
  then show "MapShard ul a n = MapShard ul b n" by (simp add: MapShard_def)
next
  assume h: "isASCII a \<and> \<not> HasPrefix (map asciiLower a) ''0x''"
  then have 1: "TrimPrefix (ToLower ul (''0x'' @ a)) ''0x'' = map asciiLower a"
    by (simp only: ToLower_0x TrimPrefix_0x)
  from h have 2: "TrimPrefix (ToLower ul a) ''0x'' = map asciiLower a"
    by (simp add: ToLower_def TrimPrefix_none)
  show "MapShard ul (''0x'' @ a) n = MapShard ul a n"
    unfolding MapShard_def 1 2 ..
qed

theorem MapShard_normalization_witness:
  "(ToLower id ''AbCd12'' = ToLower id ''abcD12''
     \<and> isASCII ''AbCd12'' \<and> isASCII ''abcD12''
     \<and> map asciiLower ''AbCd12'' = map asciiLower ''abcD12''
     \<and> MapShard id ''AbCd12'' 4 = MapShard id ''abcD12'' 4)
   \<and> (\<not> HasPrefix (map asciiLower ''AbCd12'') ''0x''
     \<and> MapShard id (''0x'' @ ''AbCd12'') 4 = MapShard id ''AbCd12'' 4)"
proof -
  have h1: "isASCII ''AbCd12'' \<and> isASCII ''abcD12''
            \<and> map asciiLower ''AbCd12'' = map asciiLower ''abcD12''"
    by (simp add: isASCII_def asciiLower_def)
  then have h0: "ToLower id ''AbCd12'' = ToLower id ''abcD12''"
    by (simp add: ToLower_def)
  have h2: "isASCII ''AbCd12'' \<and> \<not> HasPrefix (map asciiLower ''AbCd12'') ''0x''"
    by (simp add: isASCII_def asciiLower_def)
  from MapShard_normalization [where a = "''AbCd12''" and b = "''abcD12''" and ul = id and n = 4]
    h0 h1 h2
  show ?thesis by blast
qed

section \<open>Pending-settlement ledger\<close>

text \<open>
  C2 (exactly-once settlement). \<open>Settle\<close> fails when the pair is settled or not pending,
  and then returns the ledger and the state of the callback unchanged: the callback was
  not called. Otherwise it succeeds; the state of the callback is the result of two calls,
  first crediting \<open>UtilityA\<close> to the proposer of the source shard, then \<open>UtilityB\<close> to
  the proposer of the destination shard; in the new ledger the pair is settled and no
  longer pending, and no other pair has changed.
\<close>

theorem Settle_exactly_once:
  "(IsSettled l pairID \<or> \<not> IsPending l pairID \<longrightarrow>
      (\<exists>e. Settle l pairID dest creditFunc w = (Some e, l, w)))
   \<and> (\<not> IsSettled l pairID \<and> Mapping.lookup (pending l) pairID = Some p \<longrightarrow>
       (\<exists>l'. Settle l pairID dest creditFunc w =
               (None, l',
                creditFunc (ShardB p) (proposerID (ShardB p) dest) (UtilityB p)
                  (creditFunc (ShardA p) (proposerID (ShardA p) (SourceBlockID p)) (UtilityA p) w))
         \<and> \<not> IsPending l' pairID \<and> IsSettled l' pairID
         \<and> (\<forall>k. k \<noteq> pairID \<longrightarrow>
               Mapping.lookup (pending l') k = Mapping.lookup (pending l) k
               \<and> Mapping.lookup (settled l') k = Mapping.lookup (settled l) k)))"
  by (auto simp add: Settle_def IsSettled_def IsPending_def Let_def split: option.splits)

text \<open>
  The scenario of the specification: an entry with utilities 75 and 75 between shards 0
  and 1 is settled with a recording callback, which sees the two credits in order; a
  second settlement fails and records nothing, as does the settlement of an unknown pair.
\<close>

theorem Settle_exactly_once_witness:
  "(\<not> IsSettled (snd (Add NewLedger entry0)) ''tx1''
    \<and> Mapping.lookup (pending (snd (Add NewLedger entry0))) ''tx1'' = Some entry0)
   \<and> (\<exists>l'. Settle (snd (Add NewLedger entry0)) ''tx1'' ''b9'' recordCredit [] =
              (None, l', [(0, ''proposer_shard_0_block_a7'', 75), (1, ''proposer_shard_1_block_b9'', 75)])
            \<and> \<not> IsPending l' ''tx1'' \<and> IsSettled l' ''tx1'')
   \<and> (IsSettled (fst (snd (Settle (snd (Add NewLedger entry0)) ''tx1'' ''b9'' recordCredit []))) ''tx1''
       \<and> (\<exists>e. Settle (fst (snd (Settle (snd (Add NewLedger entry0)) ''tx1'' ''b9'' recordCredit [])))
                  ''tx1'' ''b9'' recordCredit [] =
                (Some e, fst (snd (Settle (snd (Add NewLedger entry0)) ''tx1'' ''b9'' recordCredit [])), [])))
   \<and> (\<not> IsPending NewLedger ''tx1''
       \<and> (\<exists>e. Settle NewLedger ''tx1'' ''b9'' recordCredit [] = (Some e, NewLedger, [])))"
proof -
  let ?l1 = "snd (Add NewLedger entry0)"
  let ?l2 = "fst (snd (Settle ?l1 ''tx1'' ''b9'' recordCredit []))"
  have h: "\<not> IsSettled ?l1 ''tx1'' \<and> Mapping.lookup (pending ?l1) ''tx1'' = Some entry0"
    by (simp add: Add_def NewLedger_def IsSettled_def entry0_def)
  have n: "\<not> IsPending NewLedger ''tx1''"
    by (simp add: NewLedger_def IsPending_def)
  have ids: "proposerID 0 ''a7'' = ''proposer_shard_0_block_a7''"
            "proposerID 1 ''b9'' = ''proposer_shard_1_block_b9''"
    by (simp_all add: proposerID_def showInt_def showNat.simps digitChar_def)
  have flds: "ShardA entry0 = 0" "ShardB entry0 = 1" "UtilityA entry0 = 75" "UtilityB entry0 = 75"
     "SourceBlockID entry0 = ''a7''"
    by (simp_all add: entry0_def)
  from Settle_exactly_once [where l = ?l1 and pairID = "''tx1''" and p = entry0
      and dest = "''b9''" and creditFunc = recordCredit and w = "[]"] h
  have s: "\<exists>l'. Settle ?l1 ''tx1'' ''b9'' recordCredit [] =
              (None, l', [(0, ''proposer_shard_0_block_a7'', 75), (1, ''proposer_shard_1_block_b9'', 75)])
            \<and> \<not> IsPending l' ''tx1'' \<and> IsSettled l' ''tx1''"
    unfolding flds ids by (auto simp add: recordCredit_def)
  then have t: "IsSettled ?l2 ''tx1''" by auto
  from Settle_exactly_once [where l = ?l2 and pairID = "''tx1''" and p = entry0
      and dest = "''b9''" and creditFunc = recordCredit and w = "[]"] t
  have r: "\<exists>e. Settle ?l2 ''tx1'' ''b9'' recordCredit [] = (Some e, ?l2, [])"
    by blast
  from Settle_exactly_once [where l = NewLedger and pairID = "''tx1''" and p = entry0
      and dest = "''b9''" and creditFunc = recordCredit and w = "[]"] n
  have f: "\<exists>e. Settle NewLedger ''tx1'' ''b9'' recordCredit [] = (Some e, NewLedger, [])"
    by blast
  from h s t r n f show ?thesis by blast
qed

text \<open>
  C9 (a cleaned-up pair can be added again). When a pair is pending with an entry older
  than the threshold and is not settled, \<open>CleanupOld\<close> leaves it neither pending nor
  settled, and adding an entry \<open>q\<close> with the same pair identifier then succeeds and makes
  \<open>q\<close> the pending entry.
\<close>

theorem CleanupOld_then_Add:
  "\<not> IsSettled l (PairID q) \<and> Mapping.lookup (pending l) (PairID q) = Some p
     \<and> CreatedAt p < olderThan
   \<longrightarrow> \<not> IsPending (snd (CleanupOld l olderThan)) (PairID q)
       \<and> \<not> IsSettled (snd (CleanupOld l olderThan)) (PairID q)
       \<and> fst (Add (snd (CleanupOld l olderThan)) q) = None
       \<and> Mapping.lookup (pending (snd (Add (snd (CleanupOld l olderThan)) q))) (PairID q) = Some q"
  by (auto simp add: CleanupOld_def Add_def IsSettled_def IsPending_def Mapping.lookup_filter
        split: option.splits)

theorem CleanupOld_then_Add_witness:
  "(\<not> IsSettled (snd (Add NewLedger entry0)) ''tx1''
    \<and> Mapping.lookup (pending (snd (Add NewLedger entry0))) ''tx1'' = Some entry0
    \<and> CreatedAt entry0 < 10)
   \<and> fst (Add (snd (CleanupOld (snd (Add NewLedger entry0)) 10)) (entry0\<lparr>CreatedAt := 20\<rparr>)) = None"
proof -
  have h: "\<not> IsSettled (snd (Add NewLedger entry0)) (PairID (entry0\<lparr>CreatedAt := 20\<rparr>))
    \<and> Mapping.lookup (pending (snd (Add NewLedger entry0))) (PairID (entry0\<lparr>CreatedAt := 20\<rparr>))
        = Some entry0
    \<and> CreatedAt entry0 < 10"
    by (simp add: Add_def NewLedger_def IsSettled_def entry0_def)
  have "PairID (entry0\<lparr>CreatedAt := 20\<rparr>) = ''tx1''" by (simp add: entry0_def)
  with h CleanupOld_then_Add [where l = "snd (Add NewLedger entry0)"
      and q = "entry0\<lparr>CreatedAt := 20\<rparr>" and p = entry0 and olderThan = 10]
  show ?thesis by simp
qed

section \<open>Fee-expectation tracker\<close>

lemma sumCapped_acc:
  "sumCapped fees (s, c) =
     (s + sum_list (map (\<lambda>f. min f feeCap) (filter (\<lambda>f. 0 < f) (List.map_filter id fees))),
      c + int (length (filter (\<lambda>f. 0 < f) (List.map_filter id fees))))"
proof (induction fees arbitrary: s c)
  case Nil
  show ?case by (simp add: List.map_filter_simps)
next
  case (Cons fee fees)
  show ?case
  proof (cases fee)
    case None
    then show ?thesis using Cons.IH by (simp add: List.map_filter_simps)
  next
    case (Some f)
    then show ?thesis using Cons.IH by (simp add: List.map_filter_simps Let_def min_def)
  qed
qed

lemma positive_comprehension:
  "filter (\<lambda>f. 0 < f) (List.map_filter id fees) = [f. Some f \<leftarrow> fees, (0::int) < f]"
  by (induction fees) (auto simp add: List.map_filter_simps split: option.splits)

lemma blockAvgOf_eq:
  "blockAvgOf fees =
     (let vs = [f. Some f \<leftarrow> fees, 0 < f]
      in if vs = [] then 0 else sum_list (map (\<lambda>f. min f feeCap) vs) div int (length vs))"
  unfolding positive_comprehension [symmetric]
  by (cases fees) (simp_all add: blockAvgOf_def sumCapped_acc Let_def List.map_filter_simps)

lemma OnBlockFinalized_window:
  assumes "0 < WindowSize t"
  shows "\<exists>t' w. OnBlockFinalized t shardID fees = Some t'
           \<and> Mapping.lookup (itxWindows t') shardID = Some w
           \<and> w \<noteq> [] \<and> last w = blockAvgOf fees
           \<and> int (length w) \<le> WindowSize t
           \<and> Mapping.lookup (avg t') shardID = Some (sum_list w div int (length w))"
proof -
  define old where "old = (case Mapping.lookup (itxWindows t) shardID of None \<Rightarrow> [] | Some w \<Rightarrow> w)"
  define window where "window = old @ [blockAvgOf fees]"
  define w where "w = (if int (length window) > WindowSize t
                       then drop (nat (int (length window) - WindowSize t)) window else window)"
  have wne: "w \<noteq> []" using assms by (auto simp add: w_def window_def)
  have lastw: "last w = blockAvgOf fees"
    using assms by (auto simp add: w_def window_def)
  have lenw: "int (length w) \<le> WindowSize t"
    using assms by (auto simp add: w_def)
  have "\<exists>t'. OnBlockFinalized t shardID fees = Some t'
           \<and> Mapping.lookup (itxWindows t') shardID = Some w
           \<and> Mapping.lookup (avg t') shardID = Some (sum_list w div int (length w))"
    using assms wne
    by (cases "Mapping.lookup (itxWindows t) shardID")
       (auto simp add: OnBlockFinalized_def recomputeAvg_def Let_def w_def window_def old_def)
  with wne lastw lenw show ?thesis by blast
qed

lemma rolling_mean_three_blocks:
  "map_option (\<lambda>t. GetAvgITXFee t 0)
     (finalizeAll (NewTracker 3) 0 [ [Some 100, Some 200, Some 300], [Some 400, Some 500], [Some 600] ])
   = Some 416"
  by (simp add: NewTracker_def OnBlockFinalized_def recomputeAvg_def GetAvgITXFee_def blockAvgOf_def
        feeCap_def Let_def Mapping.lookup_default_def)

lemma rolling_mean_four_blocks:
  "map_option (\<lambda>t. GetAvgITXFee t 0)
     (finalizeAll (NewTracker 3) 0
        [ [Some 100, Some 200, Some 300], [Some 400, Some 500], [Some 600], [Some 900] ])
   = Some 650"
  by (simp add: NewTracker_def OnBlockFinalized_def recomputeAvg_def GetAvgITXFee_def blockAvgOf_def
        feeCap_def Let_def Mapping.lookup_default_def)

text \<open>
  C3 as stated fails: finalizing the fees 0 and 300000000000000 on a fresh tracker appends
  100000000000000 to the window, not the mean 150000000000000 of the two fees: the zero
  fee is not counted and the other fee is capped.
\<close>

theorem OnBlockFinalized_plain_mean_counterexample:
  "OnBlockFinalized (NewTracker 3) 0 [Some 0, Some 300000000000000] =
     Some \<lparr>WindowSize = 3,
           itxWindows = Mapping.update 0 [100000000000000] (Mapping.update 0 [] Mapping.empty),
           blockCount = Mapping.update 0 1 (Mapping.update 0 0 Mapping.empty),
           avg = Mapping.update 0 100000000000000 (Mapping.update 0 0 Mapping.empty)\<rparr>
   \<and> (0 + 300000000000000) div 2 \<noteq> (100000000000000 :: int)"
  by (simp add: NewTracker_def OnBlockFinalized_def recomputeAvg_def blockAvgOf_def
        feeCap_def Let_def Mapping.lookup_default_def)

text \<open>
  C3, amended (block mean). On a tracker with a positive window size, finalizing a block
  succeeds; the value appended to the window of the shard is the integer mean of the
  passed fees that are present and strictly positive, each capped at \<open>10 ^ 14\<close>, and 0
  when there is none; the stored mean is then the integer division of the sum of the
  window by its length. With window size 3, finalizing [100, 200, 300], [400, 500] and
  [600] gives the stored mean 416, and finalizing [900] after them gives 650.
\<close>

theorem OnBlockFinalized_capped_mean:
  "(0 < WindowSize t \<longrightarrow>
      (\<exists>t' w. OnBlockFinalized t shardID fees = Some t'
         \<and> Mapping.lookup (itxWindows t') shardID = Some w
         \<and> w \<noteq> []
         \<and> last w = (let vs = [f. Some f \<leftarrow> fees, 0 < f]
                      in if vs = [] then 0
                         else sum_list (map (\<lambda>f. min f feeCap) vs) div int (length vs))
         \<and> Mapping.lookup (avg t') shardID = Some (sum_list w div int (length w))
         \<and> GetAvgITXFee t' shardID = sum_list w div int (length w)))
   \<and> map_option (\<lambda>t. GetAvgITXFee t 0)
        (finalizeAll (NewTracker 3) 0 [ [Some 100, Some 200, Some 300], [Some 400, Some 500], [Some 600] ])
       = Some 416
   \<and> map_option (\<lambda>t. GetAvgITXFee t 0)
        (finalizeAll (NewTracker 3) 0
           [ [Some 100, Some 200, Some 300], [Some 400, Some 500], [Some 600], [Some 900] ])
       = Some 650"
proof (intro conjI impI)
  assume "0 < WindowSize t"
  from OnBlockFinalized_window [OF this, of shardID fees]
  show "\<exists>t' w. OnBlockFinalized t shardID fees = Some t'
         \<and> Mapping.lookup (itxWindows t') shardID = Some w
         \<and> w \<noteq> []
         \<and> last w = (let vs = [f. Some f \<leftarrow> fees, 0 < f]
                      in if vs = [] then 0
                         else sum_list (map (\<lambda>f. min f feeCap) vs) div int (length vs))
         \<and> Mapping.lookup (avg t') shardID = Some (sum_list w div int (length w))
         \<and> GetAvgITXFee t' shardID = sum_list w div int (length w)"
    unfolding blockAvgOf_eq by (auto simp add: GetAvgITXFee_def)
qed (rule rolling_mean_three_blocks, rule rolling_mean_four_blocks)

theorem OnBlockFinalized_capped_mean_witness:
  "0 < WindowSize (NewTracker 3)
   \<and> (\<exists>t' w. OnBlockFinalized (NewTracker 3) 0 [Some 0, Some 300000000000000, None] = Some t'
         \<and> Mapping.lookup (itxWindows t') 0 = Some w \<and> last w = 100000000000000
         \<and> GetAvgITXFee t' 0 = sum_list w div int (length w))"
proof -
  have h: "0 < WindowSize (NewTracker 3)" by (simp add: NewTracker_def)
  have v: "(let vs = [f. Some f \<leftarrow> [Some 0, Some 300000000000000, None], (0::int) < f]
                      in if vs = [] then 0
                         else sum_list (map (\<lambda>f. min f feeCap) vs) div int (length vs))
           = 100000000000000"
    by (simp add: feeCap_def)
  from OnBlockFinalized_capped_mean [where t = "NewTracker 3" and shardID = 0
         and fees = "[Some 0, Some 300000000000000, None]"] h
  show ?thesis unfolding v by blast
qed

section \<open>Subsidy engine\<close>

lemma written_Some: "written (Some a) v = Some v"
  by (simp add: written_def)

text \<open>
  What \<open>scoreCTX\<close> records of the subsidy, the scheduler and the local average does not
  mention the fee of the transaction.
\<close>

lemma scoreCTX_subsidy:
  fixes fl :: "'f Float64"
  shows
  "map_option (\<lambda>(r, tx', s', EA'). (SubsidyR tx', s', EA')) (scoreCTX fl now s tx EA0) =
     (let EA = (if FromShard tx = ShardID s then EA0
                else Some (GetAvgITXFee (FeeTracker s) (FromShard tx)));
          EB = Some (destAvg (FeeTracker s) (ShardID s) tx)
      in case Mechanism s of
           Some m \<Rightarrow>
             map_option
               (\<lambda>(R, EA', EB', m'). (Some R,
                  (if SubsidyMode s = SubsidyLagrangian
                   then s\<lparr>Mechanism := Some m', epochSubsidyTotal := epochSubsidyTotal s + R,
                          epochTxCount := epochTxCount s + 1\<rparr>
                   else s\<lparr>Mechanism := Some m'\<rparr>),
                  (if FromShard tx = ShardID s then EA' else EA0)))
               (CalculateRAB fl now m EA EB (Some (schedulerMetrics fl)))
         | None \<Rightarrow>
             (case RAB (SubsidyMode s) EA EB (None :: 'f DynamicMetrics option) (CustomSubsidy s) of
                (R, EA', EB') \<Rightarrow>
                  Some (Some R, s, (if FromShard tx = ShardID s then EA' else EA0))))"
proof (cases "FromShard tx = ShardID s")
  case src: True
  show ?thesis
  proof (cases "Mechanism s")
    case None
    with src show ?thesis
      by (simp add: scoreCTX_def destAvg_def Let_def split: prod.splits)
  next
    case (Some m)
    show ?thesis
    proof (cases "CalculateRAB fl now m EA0 (Some (GetAvgITXFee (FeeTracker s) (ToShard tx)))
                    (Some (schedulerMetrics fl))")
      case None
      with src Some show ?thesis
        by (simp add: scoreCTX_def destAvg_def schedulerMetrics_def Let_def)
    next
      case (Some p)
      obtain R a b m' where p: "p = (R, a, b, m')" by (cases p)
      from src \<open>Mechanism s = Some m\<close> Some p show ?thesis
        by (simp add: scoreCTX_def destAvg_def schedulerMetrics_def Let_def split: prod.splits)
    qed
  qed
next
  case dst: False
  show ?thesis
  proof (cases "Mechanism s")
    case None
    with dst show ?thesis
      by (simp add: scoreCTX_def destAvg_def Let_def split: prod.splits)
  next
    case (Some m)
    show ?thesis
    proof (cases "CalculateRAB fl now m (Some (GetAvgITXFee (FeeTracker s) (FromShard tx)))
                    (Some (GetAvgITXFee (FeeTracker s) (ShardID s))) (Some (schedulerMetrics fl))")
      case None
      with dst Some show ?thesis
        by (simp add: scoreCTX_def destAvg_def schedulerMetrics_def Let_def)
    next
      case (Some p)
      obtain R a b m' where p: "p = (R, a, b, m')" by (cases p)
      from dst \<open>Mechanism s = Some m\<close> Some p show ?thesis
        by (simp add: scoreCTX_def destAvg_def schedulerMetrics_def Let_def split: prod.splits)
    qed
  qed
qed

lemma destAvg_fee: "destAvg tr sh (tx\<lparr>FeeToProposer := f\<rparr>) = destAvg tr sh tx"
  by (simp add: destAvg_def)

lemma Mechanism_ComputeCTXScore_state:
  "map_option snd (Mechanism_ComputeCTXScore fl now m fAB EA EB metrics src) =
     map_option snd (CalculateRAB fl now m EA EB metrics)"
  by (simp add: Mechanism_ComputeCTXScore_def split: option.split prod.split)

lemma CalculateRAB_static:
  assumes "Mode (config m) \<noteq> SubsidyPID" and "Mode (config m) \<noteq> SubsidyLagrangian"
  shows "CalculateRAB fl now m EA EB metrics =
           (case RAB (Mode (config m)) EA EB metrics' (CustomF (config m)) of
              (R, EA', EB') \<Rightarrow> Some (R, EA', EB', m))"
  using assms
  by (cases "Mode (config m)")
     (simp_all add: CalculateRAB_def calculateRABInternal_def RAB_def
        split: option.split prod.split)

lemma CalculateRAB_state:
  assumes "config m' = config m" and "pidState m' = pidState m"
    and "Lambda (lagrangianState m') = Lambda (lagrangianState m)"
  shows "map_option fst (CalculateRAB fl now m' EA EB metrics) =
           map_option fst (CalculateRAB fl now m EA EB metrics)"
  using assms
  by (cases "Mode (config m)")
     (simp_all add: CalculateRAB_def calculateRABInternal_def calcLagrangianSubsidy_def
        split: option.split prod.split)

text \<open>
  C6 as stated fails: the subsidy is not a function of the mode, the averages, the
  metrics and the custom function only. In PID mode two calls with the same mode, the
  same averages 1000 and 1000, the same metrics and no custom function, one second after
  the creation of the mechanism and one second later, return the subsidies 2000 and
  1750: the first call finds the integral and the previous error at 0 and leaves them at
  1/4, so the multiplier is 2 at the first call and 7/4 at the second.
\<close>

theorem CalculateRAB_PID_state_counterexample:
  "CalculateRAB exactFloat64 1 pidMech (Some 1000) (Some 1000) (Some queue600) =
     Some (2000, Some 1000, Some 1000,
           pidMech\<lparr>pidState := \<lparr>Integral = 1 / 4, PrevError = 1 / 4, LastUpdate_pid = 1\<rparr>\<rparr>)
   \<and> CalculateRAB exactFloat64 2
       (pidMech\<lparr>pidState := \<lparr>Integral = 1 / 4, PrevError = 1 / 4, LastUpdate_pid = 1\<rparr>\<rparr>)
       (Some 1000) (Some 1000) (Some queue600) =
     Some (1750, Some 1000, Some 1000,
           pidMech\<lparr>pidState := \<lparr>Integral = 1 / 2, PrevError = 1 / 4, LastUpdate_pid = 2\<rparr>\<rparr>)"
  by (simp add: CalculateRAB_def calculateRABInternal_def calcPIDSubsidy_def pidMech_def
        pidConfig_def NewMechanism_def queue600_def exactFloat64_def Let_def)

text \<open>
  C6, amended (the subsidy does not depend on the fee). Scoring a transfer with fee \<open>f1\<close> and
  scoring it with fee \<open>f2\<close>, from the same scheduler, with the same local average and at
  the same reading of the clock, write the same subsidy on the transaction and leave the
  same scheduler, with the same state of the controllers and the same epoch totals, and
  the same local average, or panic alike. The score function of the mechanism, called
  with fee \<open>f1\<close> and with fee \<open>f2\<close> on the same averages and any metrics, leaves the same
  averages and the same mechanism, those that \<open>CalculateRAB\<close> leaves. In every mode but
  PID and Lagrangian the subsidy of the mechanism is that of the stateless \<open>RAB\<close> on the
  mode, the averages and the custom function, whatever the metrics, the clock and the
  state of the mechanism. In every mode the subsidy is the same for two mechanisms with
  the same configuration, the same PID state and the same shadow price, called with the
  same averages and metrics at the same reading of the clock.
\<close>

theorem subsidy_independent_of_fee:
  fixes fl :: "'f Float64" and metrics' :: "'f DynamicMetrics option"
  shows
  "map_option (\<lambda>(r, tx', s', EA'). (SubsidyR tx', s', EA'))
       (scoreCTX fl now s (tx\<lparr>FeeToProposer := f1\<rparr>) EA0)
     = map_option (\<lambda>(r, tx', s', EA'). (SubsidyR tx', s', EA'))
         (scoreCTX fl now s (tx\<lparr>FeeToProposer := f2\<rparr>) EA0)
   \<and> map_option snd (Mechanism_ComputeCTXScore fl now m f1 EA EB metrics src)
       = map_option snd (Mechanism_ComputeCTXScore fl now m f2 EA EB metrics src)
   \<and> map_option snd (Mechanism_ComputeCTXScore fl now m f1 EA EB metrics src)
       = map_option snd (CalculateRAB fl now m EA EB metrics)
   \<and> (Mode (config m) \<noteq> SubsidyPID \<and> Mode (config m) \<noteq> SubsidyLagrangian \<longrightarrow>
        CalculateRAB fl now m EA EB metrics =
          (case RAB (Mode (config m)) EA EB metrics' (CustomF (config m)) of
             (R, EA', EB') \<Rightarrow> Some (R, EA', EB', m)))
   \<and> (config m' = config m \<and> pidState m' = pidState m
        \<and> Lambda (lagrangianState m') = Lambda (lagrangianState m) \<longrightarrow>
        map_option fst (CalculateRAB fl now m' EA EB metrics)
          = map_option fst (CalculateRAB fl now m EA EB metrics))"
proof (intro conjI impI)
  show "map_option (\<lambda>(r, tx', s', EA'). (SubsidyR tx', s', EA'))
          (scoreCTX fl now s (tx\<lparr>FeeToProposer := f1\<rparr>) EA0)
        = map_option (\<lambda>(r, tx', s', EA'). (SubsidyR tx', s', EA'))
            (scoreCTX fl now s (tx\<lparr>FeeToProposer := f2\<rparr>) EA0)"
    unfolding scoreCTX_subsidy destAvg_fee
    by (cases "Mechanism s"; cases "FromShard tx = ShardID s")
       (simp_all add: Let_def split: prod.split)
  show "map_option snd (Mechanism_ComputeCTXScore fl now m f1 EA EB metrics src)
        = map_option snd (Mechanism_ComputeCTXScore fl now m f2 EA EB metrics src)"
    unfolding Mechanism_ComputeCTXScore_state ..
  show "map_option snd (Mechanism_ComputeCTXScore fl now m f1 EA EB metrics src)
        = map_option snd (CalculateRAB fl now m EA EB metrics)"
    by (rule Mechanism_ComputeCTXScore_state)
next
  assume "Mode (config m) \<noteq> SubsidyPID \<and> Mode (config m) \<noteq> SubsidyLagrangian"
  then show "CalculateRAB fl now m EA EB metrics =
          (case RAB (Mode (config m)) EA EB metrics' (CustomF (config m)) of
             (R, EA', EB') \<Rightarrow> Some (R, EA', EB', m))"
    using CalculateRAB_static by blast
next
  assume "config m' = config m \<and> pidState m' = pidState m
        \<and> Lambda (lagrangianState m') = Lambda (lagrangianState m)"
  then show "map_option fst (CalculateRAB fl now m' EA EB metrics)
          = map_option fst (CalculateRAB fl now m EA EB metrics)"
    using CalculateRAB_state by blast
qed

text \<open>
  With the configuration of \<open>pidMech\<close> switched to the sum of the averages, the subsidy
  for the averages 1000 and 990 is 1990 at any instant; in PID mode it is the same for
  the mechanism and for one that differs from it in the stored epoch total only.
\<close>

theorem subsidy_independent_of_fee_witness:
  "Mode (config (pidMech\<lparr>config := pidConfig\<lparr>Mode := SubsidySumAvg\<rparr>\<rparr>)) \<noteq> SubsidyPID
   \<and> Mode (config (pidMech\<lparr>config := pidConfig\<lparr>Mode := SubsidySumAvg\<rparr>\<rparr>)) \<noteq> SubsidyLagrangian
   \<and> CalculateRAB exactFloat64 7 (pidMech\<lparr>config := pidConfig\<lparr>Mode := SubsidySumAvg\<rparr>\<rparr>)
       (Some 1000) (Some 990) (Some queue600) =
       Some (1990, Some 1000, Some 990, pidMech\<lparr>config := pidConfig\<lparr>Mode := SubsidySumAvg\<rparr>\<rparr>)
   \<and> map_option fst
       (CalculateRAB exactFloat64 1
          (pidMech\<lparr>lagrangianState := (lagrangianState pidMech)\<lparr>TotalSubsidy := Some 5\<rparr>\<rparr>)
          (Some 1000) (Some 1000) (Some queue600))
       = map_option fst (CalculateRAB exactFloat64 1 pidMech (Some 1000) (Some 1000) (Some queue600))"
proof -
  let ?m = "pidMech\<lparr>config := pidConfig\<lparr>Mode := SubsidySumAvg\<rparr>\<rparr>"
  let ?m' = "pidMech\<lparr>lagrangianState := (lagrangianState pidMech)\<lparr>TotalSubsidy := Some 5\<rparr>\<rparr>"
  have mode: "Mode (config ?m) \<noteq> SubsidyPID \<and> Mode (config ?m) \<noteq> SubsidyLagrangian"
    by simp
  have same: "config ?m' = config pidMech \<and> pidState ?m' = pidState pidMech
        \<and> Lambda (lagrangianState ?m') = Lambda (lagrangianState pidMech)"
    by simp
  from subsidy_independent_of_fee [where fl = exactFloat64 and m = ?m and now = 7
         and EA = "Some 1000" and EB = "Some 990" and metrics = "Some queue600"
         and metrics' = None] mode
  have "CalculateRAB exactFloat64 7 ?m (Some 1000) (Some 990) (Some queue600) =
          (case RAB (Mode (config ?m)) (Some 1000) (Some 990) (None :: rat DynamicMetrics option)
                  (CustomF (config ?m)) of
             (R, EA', EB') \<Rightarrow> Some (R, EA', EB', ?m))"
    by blast
  then have a: "CalculateRAB exactFloat64 7 ?m (Some 1000) (Some 990) (Some queue600) =
                  Some (1990, Some 1000, Some 990, ?m)"
    by (simp add: RAB_def)
  from subsidy_independent_of_fee [where fl = exactFloat64 and m = pidMech and m' = ?m'
         and now = 1 and EA = "Some 1000" and EB = "Some 1000" and metrics = "Some queue600"] same
  have b: "map_option fst (CalculateRAB exactFloat64 1 ?m' (Some 1000) (Some 1000) (Some queue600))
           = map_option fst (CalculateRAB exactFloat64 1 pidMech (Some 1000) (Some 1000) (Some queue600))"
    by blast
  from mode a b show ?thesis by blast
qed

section \<open>Shadow price\<close>












section \<open>Three-phase selection\<close>

lemma fillBlock_take:
  "fillBlock capacity selected xs =
     selected @ map Tx (take (nat (capacity - int (length selected))) xs)"
proof (induction xs arbitrary: selected)
  case Nil
  show ?case by simp
next
  case (Cons x xs)
  show ?case
  proof (cases "int (length selected) \<ge> capacity")
    case True
    then show ?thesis by simp
  next
    case False
    then obtain k where k: "nat (capacity - int (length selected)) = Suc k"
      by (cases "nat (capacity - int (length selected))") auto
    then have "nat (capacity - int (length (selected @ [Tx x]))) = k" by simp
    with False k Cons.IH [of "selected @ [Tx x]"] show ?thesis by simp
  qed
qed

lemma not_lessScore_iff: "\<not> lessScore b a \<longleftrightarrow> scoreThenArrival a b"
  by (auto simp add: lessScore_def scoreThenArrival_def)

lemma phases_disjoint:
  "inPhase3 x \<Longrightarrow> \<not> inPhase1 ea x \<and> \<not> inPhase2 ea x"
  by (simp add: inPhase1_def inPhase2_def inPhase3_def)

lemma nat_int_sub: "nat (int n - int m) = n - m"
  by arith

lemma fillBlock_take_nat:
  "fillBlock (int n) selected xs = selected @ map Tx (take (n - length selected) xs)"
  by (simp add: fillBlock_take nat_int_sub)

lemma srt_length:
  assumes "sortsSlice srt lessScore"
  shows "length (srt lessScore xs) = length xs" and "xs = [] \<Longrightarrow> srt lessScore xs = []"
    and "set (srt lessScore xs) = set xs" and "sorted_wrt scoreThenArrival (srt lessScore xs)"
proof -
  from assms have m: "mset (srt lessScore xs) = mset xs" by (simp add: sortsSlice_def)
  from m show "length (srt lessScore xs) = length xs" by (metis size_mset)
  from m show "xs = [] \<Longrightarrow> srt lessScore xs = []" by (metis mset_zero_iff)
  from m show "set (srt lessScore xs) = set xs" by (metis set_mset_mset)
  from assms have "sorted_wrt (\<lambda>a b. \<not> lessScore b a) (srt lessScore xs)"
    by (simp add: sortsSlice_def)
  then show "sorted_wrt scoreThenArrival (srt lessScore xs)"
    by (simp add: not_lessScore_iff)
qed

text \<open>The three fillings take the first \<open>capacity\<close> entries of the sorted phases.\<close>

lemma fill_three:
  assumes srt: "sortsSlice srt lessScore" and cap: "0 < capacity"
  shows "(let selected = fillBlock capacity [] (srt lessScore phase1);
              selected = (if int (length selected) < capacity
                          then fillBlock capacity selected (srt lessScore phase2)
                          else selected);
              selected = (if int (length selected) < capacity \<and> length phase3 > 0
                          then fillBlock capacity selected (srt lessScore phase3)
                          else selected)
          in selected) =
         map Tx (take (nat capacity)
                   (srt lessScore phase1 @ srt lessScore phase2 @ srt lessScore phase3))"
proof -
  from cap obtain n where n: "capacity = int n" and pos: "0 < n"
    using zero_less_imp_eq_int by blast
  have e: "phase3 = [] \<Longrightarrow> srt lessScore phase3 = []"
    by (rule srt_length(2) [OF srt])
  show ?thesis
    using e pos unfolding n
    by (auto simp add: Let_def fillBlock_take_nat)
qed

lemma SelectForBlock_eq:
  assumes srt: "sortsSlice srt lessScore"
    and cap: "0 < capacity" and pool: "txPool \<noteq> []"
    and sc: "scoreAll fl clk 0 s (Some (GetAvgITXFee (FeeTracker s) (ShardID s))) txPool
               = Some (scored, s', EA')"
    and pp: "partitionPhases EA' scored = Some (phase1, phase2, phase3)"
  shows "SelectForBlock fl clk srt s capacity txPool =
           Some (map Tx (take (nat capacity)
                   (srt lessScore phase1 @ srt lessScore phase2 @ srt lessScore phase3)), s')"
proof -
  have "SelectForBlock fl clk srt s capacity txPool =
          Some (let selected = fillBlock capacity [] (srt lessScore phase1);
                    selected = (if int (length selected) < capacity
                                then fillBlock capacity selected (srt lessScore phase2)
                                else selected);
                    selected = (if int (length selected) < capacity \<and> length phase3 > 0
                                then fillBlock capacity selected (srt lessScore phase3)
                                else selected)
                in selected, s')"
    using cap pool sc pp by (simp add: SelectForBlock_def Let_def)
  then show ?thesis unfolding fill_three [OF srt cap] .
qed

lemma SelectForBlock_parts:
  assumes srt: "sortsSlice srt lessScore"
    and cap: "0 < capacity" and pool: "txPool \<noteq> []"
    and sel: "SelectForBlock fl clk srt s capacity txPool = Some (selected, s')"
  shows "\<exists>phase1 phase2 phase3.
           selected = map Tx (take (nat capacity)
                  (srt lessScore phase1 @ srt lessScore phase2 @ srt lessScore phase3))"
proof -
  from sel cap pool obtain scored s1 EA' where
    sc: "scoreAll fl clk 0 s (Some (GetAvgITXFee (FeeTracker s) (ShardID s))) txPool
           = Some (scored, s1, EA')"
    by (auto simp add: SelectForBlock_def Let_def split: option.splits)
  with sel cap pool obtain phase1 phase2 phase3 where
    pp: "partitionPhases EA' scored = Some (phase1, phase2, phase3)"
    by (auto simp add: SelectForBlock_def Let_def split: option.splits)
  from SelectForBlock_eq [OF srt cap pool sc pp] sel show ?thesis by auto
qed

text \<open>A subsidy function that keeps its arguments leaves the averages as they were.\<close>

lemma RAB_keeps:
  assumes "keepsArguments customF"
  shows "snd (RAB mode (Some a) (Some b) metrics customF) = (Some a, Some b)"
proof (cases customF)
  case None
  then show ?thesis by (cases mode) (simp_all add: RAB_def)
next
  case (Some f)
  obtain r a' b' where f: "f (Some a) (Some b) = (r, a', b')" by (cases "f (Some a) (Some b)")
  from assms Some have "snd (f (Some a) (Some b)) = (a, b)" by (simp add: keepsArguments_def)
  with f have "a' = a" "b' = b" by simp_all
  with f Some show ?thesis
    by (cases mode) (simp_all add: RAB_def written_def split: option.split)
qed

lemma CalculateRAB_keeps:
  assumes "keepsArguments (CustomF (config m))"
    and "CalculateRAB fl now m (Some a) (Some b) metrics = Some (R, EA', EB', m')"
  shows "EA' = Some a \<and> EB' = Some b \<and> config m' = config m"
proof (cases "CustomF (config m)")
  case None
  with assms(2) show ?thesis
    by (cases "Mode (config m)")
       (auto simp add: CalculateRAB_def calculateRABInternal_def split: option.splits)
next
  case (Some f)
  obtain r a' b' where f: "f (Some a) (Some b) = (r, a', b')" by (cases "f (Some a) (Some b)")
  from assms(1) Some have "snd (f (Some a) (Some b)) = (a, b)" by (simp add: keepsArguments_def)
  with f have "a' = a" "b' = b" by simp_all
  with f Some assms(2) show ?thesis
    by (cases "Mode (config m)")
       (auto simp add: CalculateRAB_def calculateRABInternal_def written_def split: option.splits)
qed

text \<open>
  On a read-only scheduler \<open>scoreCTX\<close> asks the engine and builds the scored entry of the
  specification, and leaves the local average as it was.
\<close>

lemma scoreCTX_scoredCTX:
  assumes ro: "readOnly s"
  shows "scoreCTX fl now s tx (Some (GetAvgITXFee (FeeTracker s) (ShardID s))) =
           (case askEngine fl now s tx of
              None \<Rightarrow> None
            | Some (R, s1) \<Rightarrow>
                Some ((Score (scoredCTX (FeeTracker s) (ShardID s) tx R),
                       (case TxCase (scoredCTX (FeeTracker s) (ShardID s) tx R) of
                          Some c \<Rightarrow> c | None \<Rightarrow> Case1)),
                      Tx (scoredCTX (FeeTracker s) (ShardID s) tx R), s1,
                      Some (GetAvgITXFee (FeeTracker s) (ShardID s))))"
proof -
  define EA where "EA = sourceAvg (FeeTracker s) tx"
  define EB where "EB = destAvg (FeeTracker s) (ShardID s) tx"
  have split: "Split2 (Some (orZero f)) R a b = Split2 f R a b" for f R a b
    by (cases f) (simp_all add: Split2_def orZero_def)
  show ?thesis
  proof (cases "Mechanism s")
    case None
    from ro have k: "keepsArguments (CustomSubsidy s)" by (simp add: readOnly_def)
    note r = RAB_keeps [OF k, of "SubsidyMode s" _ _ "None :: 'a DynamicMetrics option"]
    from None show ?thesis
      by (cases "FromShard tx = ShardID s")
         (simp_all add: scoreCTX_def askEngine_def scoredCTX_def sourceAvg_def destAvg_def Let_def
            split split_def caseNumber_def r)
  next
    case (Some m)
    from ro Some have k: "keepsArguments (CustomF (config m))" by (simp add: readOnly_def)
    show ?thesis
    proof (cases "CalculateRAB fl now m (Some EA) (Some EB) (Some (schedulerMetrics fl))")
      case None
      with Some show ?thesis
        by (cases "FromShard tx = ShardID s")
           (simp_all add: scoreCTX_def askEngine_def sourceAvg_def destAvg_def Let_def
              schedulerMetrics_def EA_def EB_def)
    next
      case (Some p)
      obtain R a b m' where p: "p = (R, a, b, m')" by (cases p)
      note c = Some [unfolded p]
      from CalculateRAB_keeps [OF k c]
      have ab: "a = Some EA" "b = Some EB" by simp_all
      from Some p ab \<open>Mechanism s = Some m\<close> show ?thesis
        by (cases "FromShard tx = ShardID s")
           (simp_all add: scoreCTX_def askEngine_def scoredCTX_def sourceAvg_def destAvg_def
              Let_def schedulerMetrics_def EA_def EB_def split split_def caseNumber_def)
    qed
  qed
qed

lemma askEngine_scheduler:
  assumes "readOnly s" and "askEngine fl now s tx = Some (R, s1)"
  shows "FeeTracker s1 = FeeTracker s \<and> ShardID s1 = ShardID s \<and> readOnly s1"
proof (cases "Mechanism s")
  case None
  with assms show ?thesis by (simp add: askEngine_def Let_def)
next
  case (Some m)
  with assms(2) obtain a b m' where
    c: "CalculateRAB fl now m (Some (sourceAvg (FeeTracker s) tx))
          (Some (destAvg (FeeTracker s) (ShardID s) tx)) (Some (schedulerMetrics fl))
        = Some (R, a, b, m')"
    and s1: "s1 = (if SubsidyMode s = SubsidyLagrangian
                   then s\<lparr>Mechanism := Some m', epochSubsidyTotal := epochSubsidyTotal s + R,
                          epochTxCount := epochTxCount s + 1\<rparr>
                   else s\<lparr>Mechanism := Some m'\<rparr>)"
    by (auto simp add: askEngine_def Let_def split: option.splits)
  from assms(1) Some have k: "keepsArguments (CustomF (config m))" by (simp add: readOnly_def)
  from CalculateRAB_keeps [OF k c] have "config m' = config m" by simp
  with assms(1) Some s1 k show ?thesis by (simp add: readOnly_def)
qed

lemma scoreAll_scoring:
  "readOnly s \<Longrightarrow>
   scoreAll fl clk i s (Some (GetAvgITXFee (FeeTracker s) (ShardID s))) txs =
     map_option (\<lambda>(scored, s'). (scored, s', Some (GetAvgITXFee (FeeTracker s) (ShardID s))))
       (scoring fl clk i s txs)"
proof (induction txs arbitrary: i s)
  case Nil
  show ?case by simp
next
  case (Cons tx txs)
  show ?case
  proof (cases "IsCrossShard tx")
    case False
    with Cons.IH [OF Cons.prems, of "Suc i"] show ?thesis
      by (simp add: Let_def scoredITX_def split: option.split)
  next
    case True
    show ?thesis
    proof (cases "askEngine fl (clk i) s tx")
      case None
      with True show ?thesis by (simp add: scoreCTX_scoredCTX [OF Cons.prems])
    next
      case (Some p)
      obtain R s1 where p: "p = (R, s1)" by (cases p)
      note ask = Some [unfolded p]
      from askEngine_scheduler [OF Cons.prems ask]
      have inv: "FeeTracker s1 = FeeTracker s" "ShardID s1 = ShardID s" "readOnly s1" by simp_all
      from Cons.IH [OF inv(3), of "Suc i"] inv(1,2)
      have ih: "scoreAll fl clk (Suc i) s1 (Some (GetAvgITXFee (FeeTracker s) (ShardID s))) txs =
                  map_option (\<lambda>(scored, s'). (scored, s', Some (GetAvgITXFee (FeeTracker s) (ShardID s))))
                    (scoring fl clk (Suc i) s1 txs)"
        by simp
      define x where "x = scoredCTX (FeeTracker s) (ShardID s) tx R"
      obtain c where c: "TxCase x = Some c" by (simp add: x_def scoredCTX_def Let_def)
      then have x: "\<lparr>Tx = Tx x, Score = Score x, TxCase = Some c\<rparr> = x" by (cases x) simp
      from True Some p ih x c show ?thesis
        by (simp add: scoreCTX_scoredCTX [OF Cons.prems] x_def [symmetric] split: option.split)
    qed
  qed
qed

text \<open>
  In the scored pool an intra-shard transaction is scored by its fee and a transfer has
  a case.
\<close>

lemma scoring_entries:
  "scoring fl clk i s txs = Some (scored, s') \<Longrightarrow>
     length scored = length txs
     \<and> (\<forall>x\<in>set scored. if IsCrossShard (Tx x) then TxCase x \<noteq> None
                         else Score x = orZero (FeeToProposer (Tx x)))"
proof (induction txs arbitrary: i s scored)
  case Nil
  then show ?case by simp
next
  case (Cons tx txs)
  show ?case
  proof (cases "IsCrossShard tx")
    case True
    with Cons.prems obtain R s1 rest where
      rest: "scoring fl clk (Suc i) s1 txs = Some (rest, s')"
      and scored: "scored = scoredCTX (FeeTracker s) (ShardID s) tx R # rest"
      by (auto split: option.splits)
    from Cons.IH [OF rest] scored True show ?thesis
      by (simp add: scoredCTX_def Let_def)
  next
    case False
    with Cons.prems obtain rest where
      rest: "scoring fl clk (Suc i) s txs = Some (rest, s')"
      and scored: "scored = scoredITX tx # rest"
      by (auto split: option.splits)
    from Cons.IH [OF rest] scored False show ?thesis
      by (simp add: scoredITX_def)
  qed
qed

lemma partitionPhases_filter:
  "\<forall>x\<in>set xs. \<not> IsCrossShard (Tx x) \<longrightarrow> Score x = orZero (FeeToProposer (Tx x)) \<Longrightarrow>
   partitionPhases (Some ea) xs =
     Some (filter (inPhase1 ea) xs, filter (inPhase2 ea) xs, filter inPhase3 xs)"
proof (induction xs)
  case Nil
  show ?case by simp
next
  case (Cons x xs)
  then have ih: "partitionPhases (Some ea) xs =
     Some (filter (inPhase1 ea) xs, filter (inPhase2 ea) xs, filter inPhase3 xs)"
    by simp
  show ?case
  proof (cases "IsCrossShard (Tx x)")
    case True
    show ?thesis
    proof (cases "TxCase x")
      case None
      with True have "\<not> inPhase1 ea x" "\<not> inPhase2 ea x" "\<not> inPhase3 x"
        by (simp_all add: inPhase1_def inPhase2_def inPhase3_def)
      with True None ih show ?thesis by simp
    next
      case (Some c)
      with True have "inPhase1 ea x = (c = Case1)" "inPhase2 ea x = (c = Case3)"
        "inPhase3 x = (c = Case2)"
        by (simp_all add: inPhase1_def inPhase2_def inPhase3_def)
      with True Some ih show ?thesis by (cases c) simp_all
    qed
  next
    case False
    with Cons.prems have "Score x = orZero (FeeToProposer (Tx x))" by simp
    with False have "inPhase1 ea x = (Score x \<ge> ea)" "inPhase2 ea x = (Score x < ea)"
      "\<not> inPhase3 x"
      by (simp_all add: inPhase1_def inPhase2_def inPhase3_def)
    with False ih show ?thesis by simp
  qed
qed

text \<open>Every entry of the scored pool is in exactly one phase.\<close>

lemma phases_length:
  "\<forall>x\<in>set xs. IsCrossShard (Tx x) \<longrightarrow> TxCase x \<noteq> None \<Longrightarrow>
   length (filter (inPhase1 ea) xs) + length (filter (inPhase2 ea) xs)
     + length (filter inPhase3 xs) = length xs"
proof (induction xs)
  case Nil
  show ?case by simp
next
  case (Cons x xs)
  then have ih: "length (filter (inPhase1 ea) xs) + length (filter (inPhase2 ea) xs)
     + length (filter inPhase3 xs) = length xs"
    by simp
  show ?case
  proof (cases "IsCrossShard (Tx x)")
    case True
    with Cons.prems obtain c where c: "TxCase x = Some c" by auto
    with True have "inPhase1 ea x = (c = Case1)" "inPhase2 ea x = (c = Case3)"
      "inPhase3 x = (c = Case2)"
      by (simp_all add: inPhase1_def inPhase2_def inPhase3_def)
    with ih show ?thesis by (cases c) simp_all
  next
    case False
    then have "inPhase1 ea x = (\<not> inPhase2 ea x)" "\<not> inPhase3 x"
      by (auto simp add: inPhase1_def inPhase2_def inPhase3_def)
    with ih show ?thesis by simp
  qed
qed

text \<open>A scheduler without mechanism always returns.\<close>

lemma RAB_first:
  "\<exists>R a' EB'. RAB mode (Some a) EB metrics customF = (R, Some a', EB')"
  by (cases mode; cases customF; cases EB)
     (auto simp add: RAB_def written_def split: option.split prod.split)

lemma scoreCTX_static:
  assumes "Mechanism s = None"
  shows "\<exists>r tx' s' ea'. scoreCTX fl now s tx (Some ea) = Some (r, tx', s', Some ea')
           \<and> Mechanism s' = None"
proof (cases "FromShard tx = ShardID s")
  case True
  from RAB_first [of "SubsidyMode s" ea "Some (GetAvgITXFee (FeeTracker s) (ToShard tx))"
         "None :: 'a DynamicMetrics option" "CustomSubsidy s"]
  obtain R a' EB' where
    "RAB (SubsidyMode s) (Some ea) (Some (GetAvgITXFee (FeeTracker s) (ToShard tx)))
       (None :: 'a DynamicMetrics option) (CustomSubsidy s) = (R, Some a', EB')"
    by blast
  with assms True show ?thesis
    by (simp add: scoreCTX_def Let_def split: prod.split)
next
  case False
  with assms show ?thesis
    by (simp add: scoreCTX_def Let_def split: prod.split)
qed

lemma scoreAll_static:
  "Mechanism s = None \<Longrightarrow>
     \<exists>scored s' ea'. scoreAll fl clk i s (Some ea) txs = Some (scored, s', Some ea')"
proof (induction txs arbitrary: i s ea)
  case Nil
  show ?case by simp
next
  case (Cons tx txs)
  show ?case
  proof (cases "IsCrossShard tx")
    case True
    from scoreCTX_static [OF Cons.prems, of fl "clk i" tx ea]
    obtain r tx' s' ea' where sc: "scoreCTX fl (clk i) s tx (Some ea) = Some (r, tx', s', Some ea')"
      and m: "Mechanism s' = None" by blast
    from Cons.IH [OF m, of "Suc i" ea'] obtain scored s'' ea'' where
      "scoreAll fl clk (Suc i) s' (Some ea') txs = Some (scored, s'', Some ea'')"
      by blast
    with True sc show ?thesis by (cases r) simp
  next
    case False
    from Cons.IH [OF Cons.prems, of "Suc i" ea] obtain scored s'' ea'' where
      "scoreAll fl clk (Suc i) s (Some ea) txs = Some (scored, s'', Some ea'')"
      by blast
    with False show ?thesis by (simp add: Let_def)
  qed
qed

lemma partitionPhases_Some:
  "\<exists>p. partitionPhases (Some ea) xs = Some p"
proof (induction xs)
  case Nil
  show ?case by simp
next
  case (Cons x xs)
  then obtain p1 p2 p3 where "partitionPhases (Some ea) xs = Some (p1, p2, p3)"
    by (metis prod_cases3)
  then show ?case
    by (cases "TxCase x") (auto split: Case.split)
qed

lemma set_insertSlice: "set (insertSlice lt x xs) = insert x (set xs)"
  by (induction xs) auto

lemma mset_insertSlice: "mset (insertSlice lt x xs) = add_mset x (mset xs)"
  by (induction xs) auto

lemma mset_sortSlice: "mset (sortSlice lt xs) = mset xs"
  by (induction xs) (simp_all add: mset_insertSlice)

lemma scoreThenArrival_trans:
  "scoreThenArrival a b \<Longrightarrow> scoreThenArrival b c \<Longrightarrow> scoreThenArrival a c"
  by (auto simp add: scoreThenArrival_def)

lemma sorted_insertSlice:
  "sorted_wrt scoreThenArrival xs \<Longrightarrow> sorted_wrt scoreThenArrival (insertSlice lessScore x xs)"
proof (induction xs)
  case Nil
  show ?case by simp
next
  case (Cons y ys)
  show ?case
  proof (cases "lessScore y x")
    case True
    then have "scoreThenArrival y x"
      by (auto simp add: lessScore_def scoreThenArrival_def split: if_splits)
    with True Cons show ?thesis by (auto simp add: set_insertSlice)
  next
    case False
    then have xy: "scoreThenArrival x y" by (simp add: not_lessScore_iff)
    with Cons.prems have "\<forall>z\<in>set ys. scoreThenArrival x z"
      by (auto intro: scoreThenArrival_trans)
    with False xy Cons.prems show ?thesis by simp
  qed
qed

lemma sortsSlice_sortSlice: "sortsSlice sortSlice lessScore"
proof -
  have "sorted_wrt scoreThenArrival (sortSlice lessScore xs)" for xs
    by (induction xs) (simp_all add: sorted_insertSlice)
  then show ?thesis
    by (simp add: sortsSlice_def mset_sortSlice not_lessScore_iff)
qed

lemma case2_only_after_phases:
  assumes x: "x \<in> set (take n (S1 @ S2 @ S3))" and p3: "inPhase3 x"
    and s1: "\<forall>y\<in>set S1. inPhase1 ea y" and s2: "\<forall>y\<in>set S2. inPhase2 ea y"
  shows "length S1 + length S2 < n"
proof (rule ccontr)
  assume "\<not> length S1 + length S2 < n"
  then have "take n (S1 @ S2 @ S3) = take n (S1 @ S2)" by simp
  with x have "x \<in> set (S1 @ S2)" by (metis in_set_takeD)
  with s1 s2 phases_disjoint [OF p3, of ea] show False by auto
qed

lemma avg_tracker0: "GetAvgITXFee tracker0 0 = 1000" "GetAvgITXFee tracker0 1 = 990"
  by (simp_all add: GetAvgITXFee_def tracker0_def UpdateRemoteShardFee_def NewTracker_def
        orZero_def Let_def)

text \<open>
  C5 as stated fails: the scheduler of shard 0 has the local average 1000 and the custom
  subsidy function \<^verbatim>\<open>a.Add(a, b)\<close>. The pool holds the transfer of fee 10 and the
  intra-shard transaction of fee 1200, which is at least the local average and so
  belongs to phase 1. Scoring the transfer leaves 1990 behind the pointer to the local
  average; the transfer gets the utility 1500 and Case3, the intra-shard transaction is
  compared with 1990 and lands in phase 2 behind the transfer, and with capacity 1 the
  transfer is selected instead of it.
\<close>

theorem SelectForBlock_written_average_counterexample:
  "GetAvgITXFee (FeeTracker schedAdd) (ShardID schedAdd) = 1000
   \<and> FeeToProposer itx1200 = Some 1200
   \<and> IsCrossShard itx1200 = False
   \<and> SelectForBlock noFloat64 clock0 sortSlice schedAdd 1 [ctx10, itx1200] =
       Some ([ctx10\<lparr>SubsidyR := Some 1990, UtilityA_tx := Some 1500, UtilityB_tx := Some 500,
                    JustitiaCase := 3\<rparr>], schedAdd)"
  by (simp add: SelectForBlock_def scoreCTX_def RAB_def Split2_Some Classify_Some caseNumber_def
        written_def addInto_def lessScore_def orZero_def Let_def avg_tracker0 schedAdd_def
        sched0_def itx1200_def ctx10_def newTx_def)

text \<open>
  C5, amended (three-phase selection). Let \<open>srt\<close> sort as \<^verbatim>\<open>sort.Slice\<close> does. Whenever
  \<open>SelectForBlock\<close> returns, it returns at most \<open>capacity\<close> transactions, and none when
  the capacity is not positive or the pool is empty; a scheduler without mechanism
  always returns. Let the scheduler be read-only, the capacity positive and the pool not
  empty. Then \<open>SelectForBlock\<close> panics exactly when the subsidy engine does; otherwise
  the pool is scored in its order, each intra-shard transaction by its fee and each
  transfer by its utility from the split, with its case from the classification, and
  there are three lists \<open>S1\<close>, \<open>S2\<close>, \<open>S3\<close>, permutations of the scored entries of phase
  1, 2 and 3, each ordered by descending score and, at equal score, by arrival time,
  such that the transactions returned are those of the first \<open>capacity\<close> entries of \<open>S1\<close>
  followed by \<open>S2\<close> followed by \<open>S3\<close>. Their number is the smaller of the capacity and
  the size of the pool, so selection stops when the capacity is reached, and an entry of
  phase 3, a transfer of Case2, is among them only if phases 1 and 2 together hold fewer
  than \<open>capacity\<close> entries.
\<close>

theorem SelectForBlock_three_phases:
  assumes srt: "sortsSlice srt lessScore"
  shows
  "(\<forall>selected s'. SelectForBlock fl clk srt s capacity txPool = Some (selected, s') \<longrightarrow>
       int (length selected) \<le> max 0 capacity
     \<and> (capacity \<le> 0 \<or> txPool = [] \<longrightarrow> selected = [] \<and> s' = s))
   \<and> (Mechanism s = None \<longrightarrow> SelectForBlock fl clk srt s capacity txPool \<noteq> None)
   \<and> (readOnly s \<and> 0 < capacity \<and> txPool \<noteq> [] \<longrightarrow>
       (case scoring fl clk 0 s txPool of
          None \<Rightarrow> SelectForBlock fl clk srt s capacity txPool = None
        | Some (scored, s') \<Rightarrow>
            (\<exists>S1 S2 S3 selected.
                SelectForBlock fl clk srt s capacity txPool = Some (selected, s')
              \<and> selects (GetAvgITXFee (FeeTracker s) (ShardID s)) capacity scored S1 S2 S3 selected
              \<and> int (length selected) = min capacity (int (length txPool))
              \<and> (\<forall>x\<in>set (take (nat capacity) (S1 @ S2 @ S3)).
                    inPhase3 x \<longrightarrow> int (length S1 + length S2) < capacity))))"
proof (intro conjI allI impI)
  fix selected s'
  assume sel: "SelectForBlock fl clk srt s capacity txPool = Some (selected, s')"
  have trivial: "selected = [] \<and> s' = s" if "capacity \<le> 0 \<or> txPool = []"
    using sel that by (auto simp add: SelectForBlock_def)
  show "int (length selected) \<le> max 0 capacity"
  proof (cases "0 < capacity \<and> txPool \<noteq> []")
    case True
    then have cap: "0 < capacity" and pool: "txPool \<noteq> []" by simp_all
    from SelectForBlock_parts [OF srt cap pool sel] obtain phase1 phase2 phase3 where
      "selected = map Tx (take (nat capacity)
          (srt lessScore phase1 @ srt lessScore phase2 @ srt lessScore phase3))"
      by blast
    then have "length selected \<le> nat capacity" by simp
    with cap show ?thesis by linarith
  next
    case False
    with trivial have "selected = []" by auto
    then show ?thesis by simp
  qed
  show "selected = []" if "capacity \<le> 0 \<or> txPool = []" using trivial that by blast
  show "s' = s" if "capacity \<le> 0 \<or> txPool = []" using trivial that by blast
next
  assume m: "Mechanism s = None"
  show "SelectForBlock fl clk srt s capacity txPool \<noteq> None"
  proof (cases "0 < capacity \<and> txPool \<noteq> []")
    case False
    then show ?thesis by (auto simp add: SelectForBlock_def)
  next
    case True
    then have cap: "0 < capacity" and pool: "txPool \<noteq> []" by simp_all
    from scoreAll_static [OF m, of fl clk 0 "GetAvgITXFee (FeeTracker s) (ShardID s)" txPool]
    obtain scored s' ea' where
      sc: "scoreAll fl clk 0 s (Some (GetAvgITXFee (FeeTracker s) (ShardID s))) txPool
             = Some (scored, s', Some ea')"
      by blast
    from partitionPhases_Some [of ea' scored] obtain phase1 phase2 phase3 where
      pp: "partitionPhases (Some ea') scored = Some (phase1, phase2, phase3)"
      by (metis prod_cases3)
    from SelectForBlock_eq [OF srt cap pool sc pp] show ?thesis by simp
  qed
next
  assume h: "readOnly s \<and> 0 < capacity \<and> txPool \<noteq> []"
  then have ro: "readOnly s" and cap: "0 < capacity" and pool: "txPool \<noteq> []" by simp_all
  define ea where "ea = GetAvgITXFee (FeeTracker s) (ShardID s)"
  note all = scoreAll_scoring [OF ro, of fl clk 0 txPool, folded ea_def]
  show "case scoring fl clk 0 s txPool of
          None \<Rightarrow> SelectForBlock fl clk srt s capacity txPool = None
        | Some (scored, s') \<Rightarrow>
            (\<exists>S1 S2 S3 selected.
                SelectForBlock fl clk srt s capacity txPool = Some (selected, s')
              \<and> selects (GetAvgITXFee (FeeTracker s) (ShardID s)) capacity scored S1 S2 S3 selected
              \<and> int (length selected) = min capacity (int (length txPool))
              \<and> (\<forall>x\<in>set (take (nat capacity) (S1 @ S2 @ S3)).
                    inPhase3 x \<longrightarrow> int (length S1 + length S2) < capacity))"
  proof (cases "scoring fl clk 0 s txPool")
    case None
    with all have "scoreAll fl clk 0 s (Some ea) txPool = None" by simp
    with cap pool None show ?thesis by (simp add: SelectForBlock_def Let_def ea_def)
  next
    case (Some p)
    obtain scored s' where p: "p = (scored, s')" by (cases p)
    from all Some p have sc: "scoreAll fl clk 0 s (Some ea) txPool = Some (scored, s', Some ea)"
      by simp
    note scp = Some [unfolded p]
    from scoring_entries [OF scp]
    have len: "length scored = length txPool"
      and ent: "\<forall>x\<in>set scored. if IsCrossShard (Tx x) then TxCase x \<noteq> None
                                 else Score x = orZero (FeeToProposer (Tx x))"
      by simp_all
    from ent have itx: "\<forall>x\<in>set scored. \<not> IsCrossShard (Tx x) \<longrightarrow>
                          Score x = orZero (FeeToProposer (Tx x))"
      by (auto split: if_splits)
    from ent have ctx: "\<forall>x\<in>set scored. IsCrossShard (Tx x) \<longrightarrow> TxCase x \<noteq> None"
      by (auto split: if_splits)
    define S1 where "S1 = srt lessScore (filter (inPhase1 ea) scored)"
    define S2 where "S2 = srt lessScore (filter (inPhase2 ea) scored)"
    define S3 where "S3 = srt lessScore (filter inPhase3 scored)"
    define selected where "selected = map Tx (take (nat capacity) (S1 @ S2 @ S3))"
    note sc0 = sc [unfolded ea_def]
    note pp0 = partitionPhases_filter [OF itx, of ea, unfolded ea_def]
    from SelectForBlock_eq [OF srt cap pool sc0 pp0]
    have res: "SelectForBlock fl clk srt s capacity txPool = Some (selected, s')"
      by (simp add: selected_def S1_def S2_def S3_def ea_def)
    have m: "mset S1 = mset (filter (inPhase1 ea) scored)"
            "mset S2 = mset (filter (inPhase2 ea) scored)"
            "mset S3 = mset (filter inPhase3 scored)"
      using srt by (simp_all add: sortsSlice_def S1_def S2_def S3_def)
    have so: "sorted_wrt scoreThenArrival S1" "sorted_wrt scoreThenArrival S2"
             "sorted_wrt scoreThenArrival S3"
      unfolding S1_def S2_def S3_def by (rule srt_length(4) [OF srt])+
    from m so have sl: "selects ea capacity scored S1 S2 S3 selected"
      by (simp add: selects_def selected_def)
    have in1: "\<forall>y\<in>set S1. inPhase1 ea y"
      unfolding S1_def srt_length(3) [OF srt] by simp
    have in2: "\<forall>y\<in>set S2. inPhase2 ea y"
      unfolding S2_def srt_length(3) [OF srt] by simp
    have c2: "\<forall>x\<in>set (take (nat capacity) (S1 @ S2 @ S3)).
                inPhase3 x \<longrightarrow> int (length S1 + length S2) < capacity"
    proof (intro ballI impI)
      fix x
      assume "x \<in> set (take (nat capacity) (S1 @ S2 @ S3))" and "inPhase3 x"
      from case2_only_after_phases [OF this in1 in2]
      show "int (length S1 + length S2) < capacity" by linarith
    qed
    have "length S1 + length S2 + length S3 = length scored"
      unfolding S1_def S2_def S3_def srt_length(1) [OF srt] by (rule phases_length [OF ctx])
    with len have total: "length (S1 @ S2 @ S3) = length txPool" by simp
    have "length selected = min (length (S1 @ S2 @ S3)) (nat capacity)"
      unfolding selected_def by (simp only: length_map length_take)
    with total cap have n: "int (length selected) = min capacity (int (length txPool))"
      by linarith
    from res sl n c2 have "\<exists>S1 S2 S3 selected.
                SelectForBlock fl clk srt s capacity txPool = Some (selected, s')
              \<and> selects ea capacity scored S1 S2 S3 selected
              \<and> int (length selected) = min capacity (int (length txPool))
              \<and> (\<forall>x\<in>set (take (nat capacity) (S1 @ S2 @ S3)).
                    inPhase3 x \<longrightarrow> int (length S1 + length S2) < capacity)"
      by blast
    with Some p show ?thesis by (simp add: ea_def)
  qed
qed

text \<open>
  The scenario of the specification: the pool is scored to the fees 1200 and 500 of the
  intra-shard transactions and the utilities 1500, of Case1, and 10, of Case2, of the
  transfers. With capacity 3, the transfer of score 1500 and the intra-shard transaction
  of fee 1200 are selected from phase 1, then the intra-shard transaction of fee 500 from
  phase 2, and the Case2 transfer is left out. With capacity 4 the Case2 transfer is
  selected last, the first two phases holding three entries. With capacity 0 nothing is
  selected.
\<close>

theorem SelectForBlock_three_phases_witness:
  "sortsSlice sortSlice lessScore
   \<and> readOnly sched0 \<and> (0::int) < 3 \<and> [itx1200, itx500, ctx2990, ctx10] \<noteq> []
   \<and> Mechanism sched0 = None
   \<and> scoring noFloat64 clock0 0 sched0 [itx1200, itx500, ctx2990, ctx10] =
       Some ([\<lparr>Tx = itx1200, Score = 1200, TxCase = None\<rparr>,
              \<lparr>Tx = itx500, Score = 500, TxCase = None\<rparr>,
              \<lparr>Tx = ctx2990\<lparr>SubsidyR := Some 0, UtilityA_tx := Some 1500,
                              UtilityB_tx := Some 1490, JustitiaCase := 1\<rparr>,
                 Score = 1500, TxCase = Some Case1\<rparr>,
              \<lparr>Tx = ctx10\<lparr>SubsidyR := Some 0, UtilityA_tx := Some 10,
                            UtilityB_tx := Some 0, JustitiaCase := 2\<rparr>,
                 Score = 10, TxCase = Some Case2\<rparr>], sched0)
   \<and> (\<exists>S1 S2 S3 selected.
         SelectForBlock noFloat64 clock0 sortSlice sched0 3 [itx1200, itx500, ctx2990, ctx10]
           = Some (selected, sched0)
       \<and> selects 1000 3
           [\<lparr>Tx = itx1200, Score = 1200, TxCase = None\<rparr>,
            \<lparr>Tx = itx500, Score = 500, TxCase = None\<rparr>,
            \<lparr>Tx = ctx2990\<lparr>SubsidyR := Some 0, UtilityA_tx := Some 1500,
                            UtilityB_tx := Some 1490, JustitiaCase := 1\<rparr>,
               Score = 1500, TxCase = Some Case1\<rparr>,
            \<lparr>Tx = ctx10\<lparr>SubsidyR := Some 0, UtilityA_tx := Some 10,
                          UtilityB_tx := Some 0, JustitiaCase := 2\<rparr>,
               Score = 10, TxCase = Some Case2\<rparr>] S1 S2 S3 selected
       \<and> int (length selected) = 3)
   \<and> SelectForBlock noFloat64 clock0 sortSlice sched0 3 [itx1200, itx500, ctx2990, ctx10] =
       Some ([ctx2990\<lparr>SubsidyR := Some 0, UtilityA_tx := Some 1500, UtilityB_tx := Some 1490,
                      JustitiaCase := 1\<rparr>, itx1200, itx500], sched0)
   \<and> int (length [ctx2990\<lparr>SubsidyR := Some 0, UtilityA_tx := Some 1500,
                            UtilityB_tx := Some 1490, JustitiaCase := 1\<rparr>, itx1200, itx500])
       \<le> max 0 3
   \<and> (\<exists>S1 S2 S3 x.
         SelectForBlock noFloat64 clock0 sortSlice sched0 4 [itx1200, itx500, ctx2990, ctx10]
           = Some (map Tx (take (nat 4) (S1 @ S2 @ S3)), sched0)
       \<and> x \<in> set (take (nat 4) (S1 @ S2 @ S3)) \<and> inPhase3 x
       \<and> Tx x = ctx10\<lparr>SubsidyR := Some 0, UtilityA_tx := Some 10, UtilityB_tx := Some 0,
                         JustitiaCase := 2\<rparr>
       \<and> int (length S1 + length S2) < 4)
   \<and> SelectForBlock noFloat64 clock0 sortSlice sched0 0 [itx1200, itx500, ctx2990, ctx10] =
       Some ([], sched0)"
proof -
  let ?pool = "[itx1200, itx500, ctx2990, ctx10]"
  let ?x = "\<lparr>Tx = ctx10\<lparr>SubsidyR := Some 0, UtilityA_tx := Some 10,
                            UtilityB_tx := Some 0, JustitiaCase := 2\<rparr>,
                 Score = 10, TxCase = Some Case2\<rparr>"
  let ?scored = "[\<lparr>Tx = itx1200, Score = 1200, TxCase = None\<rparr>,
              \<lparr>Tx = itx500, Score = 500, TxCase = None\<rparr>,
              \<lparr>Tx = ctx2990\<lparr>SubsidyR := Some 0, UtilityA_tx := Some 1500,
                              UtilityB_tx := Some 1490, JustitiaCase := 1\<rparr>,
                 Score = 1500, TxCase = Some Case1\<rparr>, ?x]"
  have ro: "readOnly sched0" by (simp add: readOnly_def keepsArguments_def sched0_def)
  have m: "Mechanism sched0 = None" by (simp add: sched0_def)
  have pool: "?pool \<noteq> []" by simp
  have sc: "scoring noFloat64 clock0 0 sched0 ?pool = Some (?scored, sched0)"
    by (simp add: askEngine_def scoredCTX_def scoredITX_def sourceAvg_def destAvg_def RAB_def
          Split2_Some Classify_Some caseNumber_def orZero_def Let_def avg_tracker0 sched0_def
          itx1200_def itx500_def ctx2990_def ctx10_def newTx_def)
  have ea: "GetAvgITXFee (FeeTracker sched0) (ShardID sched0) = 1000"
    by (simp add: sched0_def avg_tracker0)
  have ev: "SelectForBlock noFloat64 clock0 sortSlice sched0 3 ?pool =
       Some ([ctx2990\<lparr>SubsidyR := Some 0, UtilityA_tx := Some 1500, UtilityB_tx := Some 1490,
                      JustitiaCase := 1\<rparr>, itx1200, itx500], sched0)"
    by (simp add: SelectForBlock_def scoreCTX_def RAB_def Split2_Some Classify_Some caseNumber_def
          lessScore_def orZero_def Let_def avg_tracker0 sched0_def itx1200_def itx500_def
          ctx2990_def ctx10_def newTx_def)
  note th = SelectForBlock_three_phases [OF sortsSlice_sortSlice, where s = sched0
      and fl = noFloat64 and clk = clock0 and txPool = ?pool]
  note th3 = th [where capacity = 3]
  from th3 [THEN conjunct2, THEN conjunct2] ro pool
  have "case scoring noFloat64 clock0 0 sched0 ?pool of
          None \<Rightarrow> SelectForBlock noFloat64 clock0 sortSlice sched0 3 ?pool = None
        | Some (scored, s') \<Rightarrow>
            (\<exists>S1 S2 S3 selected.
                SelectForBlock noFloat64 clock0 sortSlice sched0 3 ?pool = Some (selected, s')
              \<and> selects (GetAvgITXFee (FeeTracker sched0) (ShardID sched0)) 3 scored S1 S2 S3 selected
              \<and> int (length selected) = min 3 (int (length ?pool))
              \<and> (\<forall>x\<in>set (take (nat 3) (S1 @ S2 @ S3)).
                    inPhase3 x \<longrightarrow> int (length S1 + length S2) < 3))"
    by simp
  then have ex: "\<exists>S1 S2 S3 selected.
         SelectForBlock noFloat64 clock0 sortSlice sched0 3 ?pool = Some (selected, sched0)
       \<and> selects 1000 3 ?scored S1 S2 S3 selected
       \<and> int (length selected) = 3"
    unfolding sc ea by auto
  from th3 [THEN conjunct1] ev
  have b: "int (length [ctx2990\<lparr>SubsidyR := Some 0, UtilityA_tx := Some 1500,
                          UtilityB_tx := Some 1490, JustitiaCase := 1\<rparr>, itx1200, itx500]) \<le> max 0 3"
    by blast
  note th4 = th [where capacity = 4]
  from th4 [THEN conjunct2, THEN conjunct2] ro pool
  have "case scoring noFloat64 clock0 0 sched0 ?pool of
          None \<Rightarrow> SelectForBlock noFloat64 clock0 sortSlice sched0 4 ?pool = None
        | Some (scored, s') \<Rightarrow>
            (\<exists>S1 S2 S3 selected.
                SelectForBlock noFloat64 clock0 sortSlice sched0 4 ?pool = Some (selected, s')
              \<and> selects (GetAvgITXFee (FeeTracker sched0) (ShardID sched0)) 4 scored S1 S2 S3 selected
              \<and> int (length selected) = min 4 (int (length ?pool))
              \<and> (\<forall>x\<in>set (take (nat 4) (S1 @ S2 @ S3)).
                    inPhase3 x \<longrightarrow> int (length S1 + length S2) < 4))"
    by simp
  then obtain S1 S2 S3 selected where
    r4: "SelectForBlock noFloat64 clock0 sortSlice sched0 4 ?pool = Some (selected, sched0)"
    and s4: "selects 1000 4 ?scored S1 S2 S3 selected"
    and n4: "int (length selected) = 4"
    and c4: "\<forall>x\<in>set (take (nat 4) (S1 @ S2 @ S3)).
               inPhase3 x \<longrightarrow> int (length S1 + length S2) < 4"
    unfolding sc ea by auto
  have p3: "inPhase3 ?x"
    by (simp add: inPhase3_def ctx10_def newTx_def)
  have f3: "filter inPhase3 ?scored = [?x]"
    by (simp add: inPhase3_def itx1200_def itx500_def ctx2990_def ctx10_def newTx_def)
  have f1: "length (filter (inPhase1 1000) ?scored) = 2"
    by (simp add: inPhase1_def orZero_def itx1200_def itx500_def ctx2990_def ctx10_def newTx_def)
  have f2: "length (filter (inPhase2 1000) ?scored) = 1"
    by (simp add: inPhase2_def orZero_def itx1200_def itx500_def ctx2990_def ctx10_def newTx_def)
  from s4 have ms: "mset S1 = mset (filter (inPhase1 1000) ?scored)"
    "mset S2 = mset (filter (inPhase2 1000) ?scored)" "mset S3 = mset (filter inPhase3 ?scored)"
    by (simp_all add: selects_def)
  have l1: "length S1 = 2" using mset_eq_length [OF ms(1)] unfolding f1 .
  have l2: "length S2 = 1" using mset_eq_length [OF ms(2)] unfolding f2 .
  from ms(3) have m3: "mset S3 = mset [?x]" unfolding f3 .
  have "set S3 = set [?x]" using m3 by (rule mset_eq_setD)
  then have x3: "?x \<in> set S3" by (simp only: list.set_intros(1))
  have l3: "length S3 = 1" using mset_eq_length [OF m3] by (simp only: list.size One_nat_def)
  from s4 have sel: "selected = map Tx (take (nat 4) (S1 @ S2 @ S3))"
    by (simp add: selects_def)
  from l1 l2 l3 have "take (nat 4) (S1 @ S2 @ S3) = S1 @ S2 @ S3" by simp
  with x3 have x4: "?x \<in> set (take (nat 4) (S1 @ S2 @ S3))" by simp
  with c4 p3 have l4: "int (length S1 + length S2) < 4" by blast
  from r4 sel x4 p3 l4 have ex4: "\<exists>S1 S2 S3 x.
         SelectForBlock noFloat64 clock0 sortSlice sched0 4 ?pool
           = Some (map Tx (take (nat 4) (S1 @ S2 @ S3)), sched0)
       \<and> x \<in> set (take (nat 4) (S1 @ S2 @ S3)) \<and> inPhase3 x
       \<and> Tx x = ctx10\<lparr>SubsidyR := Some 0, UtilityA_tx := Some 10, UtilityB_tx := Some 0,
                         JustitiaCase := 2\<rparr>
       \<and> int (length S1 + length S2) < 4"
    by (intro exI [of _ S1] exI [of _ S2] exI [of _ S3] exI [of _ ?x]) simp
  note th0 = th [where capacity = 0]
  from th0 [THEN conjunct2, THEN conjunct1] m
  obtain sel0 s0 where r0: "SelectForBlock noFloat64 clock0 sortSlice sched0 0 ?pool = Some (sel0, s0)"
    by fastforce
  with th0 [THEN conjunct1] have "sel0 = [] \<and> s0 = sched0" by blast
  with r0 have z: "SelectForBlock noFloat64 clock0 sortSlice sched0 0 ?pool = Some ([], sched0)"
    by simp
  from sortsSlice_sortSlice ro pool m sc ex ev b ex4 z show ?thesis by simp
qed

end
